theory Spec2Isabelle
  imports Main "HOL-Library.Product_Lexorder" "HOL-Library.Multiset"
begin

section \<open>Python string primitives used by the report generator\<close>

text \<open>
  Strings are modelled as byte lists restricted to ASCII behaviour: \<open>str.strip\<close>,
  \<open>str.upper\<close>, \<open>str.lower\<close> and \<open>str.isdigit\<close> act on the ASCII range
  only, bytes from 128 upwards are neither whitespace, letters nor digits.
\<close>

definition is_space :: "char \<Rightarrow> bool" where
  "is_space c = (c \<in> set [CHR 0x09, CHR 0x0A, CHR 0x0B, CHR 0x0C, CHR 0x0D,
                           CHR 0x1C, CHR 0x1D, CHR 0x1E, CHR 0x1F, CHR 0x20])"

definition strip :: "string \<Rightarrow> string" where
  "strip s = rev (dropWhile is_space (rev (dropWhile is_space s)))"

definition upper_char :: "char \<Rightarrow> char" where
  "upper_char c = (let n = (of_char c :: int) in
                   if 97 \<le> n \<and> n \<le> 122 then char_of (n - 32) else c)"

definition lower_char :: "char \<Rightarrow> char" where
  "lower_char c = (let n = (of_char c :: int) in
                   if 65 \<le> n \<and> n \<le> 90 then char_of (n + 32) else c)"

definition upper :: "string \<Rightarrow> string" where
  "upper s = map upper_char s"

definition lower :: "string \<Rightarrow> string" where
  "lower s = map lower_char s"

definition startswith :: "string \<Rightarrow> string \<Rightarrow> bool" where
  "startswith s p = (take (length p) s = p)"

definition endswith :: "string \<Rightarrow> string \<Rightarrow> bool" where
  "endswith s p = (length p \<le> length s \<and> drop (length s - length p) s = p)"

text \<open>\<open>py_in sub s\<close> is Python's \<open>sub in s\<close> on strings.\<close>

fun py_in :: "string \<Rightarrow> string \<Rightarrow> bool" where
  "py_in sub [] = (sub = [])"
| "py_in sub (x # xs) = (startswith (x # xs) sub \<or> py_in sub xs)"

text \<open>\<open>split_on c s\<close> is \<open>s.split(c)\<close> for a one-character separator.\<close>

fun split_on :: "char \<Rightarrow> string \<Rightarrow> string list" where
  "split_on c [] = [[]]"
| "split_on c (x # xs) =
     (if x = c then [] # split_on c xs
      else (case split_on c xs of [] \<Rightarrow> [[x]] | w # ws \<Rightarrow> (x # w) # ws))"

fun join :: "string \<Rightarrow> string list \<Rightarrow> string" where
  "join sep [] = []"
| "join sep [x] = x"
| "join sep (x # y # ys) = x @ sep @ join sep (y # ys)"

definition is_digit :: "char \<Rightarrow> bool" where
  "is_digit c = (let n = (of_char c :: int) in 48 \<le> n \<and> n \<le> 57)"

definition isdigit :: "string \<Rightarrow> bool" where
  "isdigit s = (s \<noteq> [] \<and> list_all is_digit s)"

text \<open>Insertion-ordered dictionaries: assignment keeps the position of an existing key.\<close>

type_synonym ('k, 'v) dict = "('k \<times> 'v) list"

fun dict_set :: "'k \<Rightarrow> 'v \<Rightarrow> ('k, 'v) dict \<Rightarrow> ('k, 'v) dict" where
  "dict_set k v [] = [(k, v)]"
| "dict_set k v ((k', v') # kvs) =
     (if k = k' then (k, v) # kvs else (k', v') # dict_set k v kvs)"

definition dict_get :: "('k, 'v) dict \<Rightarrow> 'k \<Rightarrow> 'v \<Rightarrow> 'v" where
  "dict_get d k dflt = (case map_of d k of None \<Rightarrow> dflt | Some v \<Rightarrow> v)"

definition dict_keys :: "('k, 'v) dict \<Rightarrow> 'k list" where
  "dict_keys d = map fst d"

section \<open>excel\_parsers: TestArticleParser\<close>

subsection \<open>\_analyze\_test\_results\<close>

record analysis =
  test_method_losses :: int
  total_tests_performed :: int
  pass_count :: int
  fail_count :: int
  tml_count :: int
  actual_sample_size :: int

datatype analysis_result = Message string | Stats analysis

type_synonym row_dict = "(string, string) dict"

definition analysis0 :: analysis where
  "analysis0 = \<lparr> test_method_losses = 0, total_tests_performed = 0, pass_count = 0,
                  fail_count = 0, tml_count = 0, actual_sample_size = 0 \<rparr>"

text \<open>The body of the inner loop \<open>for col in test_result_columns\<close> for one cell.\<close>

definition analyze_cell :: "row_dict \<Rightarrow> string \<Rightarrow> analysis \<times> bool \<Rightarrow> analysis \<times> bool" where
  "analyze_cell record col st =
     (let (a, unit_has_test_data) = st;
          result = strip (upper (dict_get record col ''''))
      in if result \<noteq> [] then
           (let a1 = a\<lparr>total_tests_performed := total_tests_performed a + 1\<rparr>;
                a2 = (if result = ''PASS'' then a1\<lparr>pass_count := pass_count a1 + 1\<rparr>
                      else if result = ''FAIL'' then a1\<lparr>fail_count := fail_count a1 + 1\<rparr>
                      else if result \<in> set [''TML'', ''TEST METHOD LOSS'']
                           then a1\<lparr>tml_count := tml_count a1 + 1,
                                   test_method_losses := test_method_losses a1 + 1\<rparr>
                      else a1)
            in (a2, True))
         else (a, unit_has_test_data))"

fun analyze_cols :: "row_dict \<Rightarrow> string list \<Rightarrow> analysis \<times> bool \<Rightarrow> analysis \<times> bool" where
  "analyze_cols record [] st = st"
| "analyze_cols record (col # cols) st = analyze_cols record cols (analyze_cell record col st)"

text \<open>The outer loop \<open>for serial_number, record in records.items()\<close>.\<close>

fun analyze_records :: "(string, row_dict) dict \<Rightarrow> string list \<Rightarrow> analysis \<Rightarrow> analysis" where
  "analyze_records [] cols a = a"
| "analyze_records ((serial_number, record) # rest) cols a =
     (let (a1, unit_has_test_data) = analyze_cols record cols (a, False);
          a2 = (if unit_has_test_data
                then a1\<lparr>actual_sample_size := actual_sample_size a1 + 1\<rparr> else a1)
      in analyze_records rest cols a2)"

definition analyze_test_results :: "(string, row_dict) dict \<Rightarrow> string list \<Rightarrow> analysis_result" where
  "analyze_test_results records test_result_columns =
     (if test_result_columns = [] then Message ''No test result columns found''
      else (let a = analyze_records records test_result_columns analysis0
            in Stats (a\<lparr>actual_sample_size :=
                          int (length records) - test_method_losses a\<rparr>)))"

text \<open>A result cell is classified as a test-method loss when its upper-cased, stripped
  text is one of the two loss markers.\<close>

definition is_tml_cell :: "row_dict \<Rightarrow> string \<Rightarrow> bool" where
  "is_tml_cell record col =
     (strip (upper (dict_get record col '''')) \<in> set [''TML'', ''TEST METHOD LOSS''])"

definition count_tml_cells :: "(string, row_dict) dict \<Rightarrow> string list \<Rightarrow> nat" where
  "count_tml_cells records cols =
     sum_list (map (\<lambda>(k, record). length (filter (is_tml_cell record) cols)) records)"

subsection \<open>\_parse\_test\_article\_sheet\<close>

text \<open>
  A worksheet cell holds \<open>None\<close>, a string, an integer or some other object (a float,
  a date, a boolean), of which only the truth value and the \<open>str()\<close> rendering matter.
\<close>

datatype cell_value = NoneV | StrV string | IntV int | OtherV bool string

definition digit_char :: "int \<Rightarrow> char" where
  "digit_char n = char_of (48 + n)"

text \<open>\<open>str(n)\<close> for an integer: the decimal digits, with a sign for negative numbers.\<close>

function str_digits :: "int \<Rightarrow> string" where
  "str_digits n = (if n < 10 then [digit_char n]
                   else str_digits (n div 10) @ [digit_char (n mod 10)])"
  by pat_completeness auto
termination
  by (relation "measure nat") auto

declare str_digits.simps [simp del]

definition str_int :: "int \<Rightarrow> string" where
  "str_int i = (if i < 0 then CHR ''-'' # str_digits (- i) else str_digits i)"

definition str_nat :: "nat \<Rightarrow> string" where
  "str_nat n = str_int (int n)"

fun truthy :: "cell_value \<Rightarrow> bool" where
  "truthy NoneV = False"
| "truthy (StrV s) = (s \<noteq> [])"
| "truthy (IntV i) = (i \<noteq> 0)"
| "truthy (OtherV t r) = t"

fun py_str :: "cell_value \<Rightarrow> string" where
  "py_str NoneV = ''None''"
| "py_str (StrV s) = s"
| "py_str (IntV i) = str_int i"
| "py_str (OtherV t r) = r"

text \<open>\<open>str(cell_value).strip() if cell_value else ""\<close>\<close>

definition cell_str :: "cell_value \<Rightarrow> string" where
  "cell_str v = (if truthy v then strip (py_str v) else [])"

text \<open>An openpyxl worksheet: its dimensions and \<open>worksheet.cell(row, column).value\<close>
  (rows and columns count from 1).\<close>

record worksheet =
  max_row :: nat
  max_column :: nat
  cell :: "nat \<Rightarrow> nat \<Rightarrow> cell_value"

record sheet_data =
  sheet_name :: string
  primary_key :: string
  columns :: "string list"
  total_units :: nat
  test_result_columns :: "string list"
  test_results_analysis :: analysis_result
  records :: "(string, row_dict) dict"

text \<open>The header loop: column names from the first row and the primary key column.
  The state is \<open>(columns, primary_key_col, self.primary_key)\<close>.\<close>

definition header_step ::
  "worksheet \<Rightarrow> nat \<Rightarrow> string list \<times> nat option \<times> string \<Rightarrow> string list \<times> nat option \<times> string" where
  "header_step ws col st =
     (let (cols, pk_col, pk) = st;
          cell_value = cell ws 1 col;
          column_name = (if truthy cell_value then strip (py_str cell_value)
                         else ''Column'' @ str_nat col)
      in if py_in (lower pk) (lower column_name) \<or> py_in ''dut serial'' (lower column_name)
         then (cols @ [column_name], Some col, column_name)
         else (cols @ [column_name], pk_col, pk))"

fun header_loop ::
  "worksheet \<Rightarrow> nat list \<Rightarrow> string list \<times> nat option \<times> string \<Rightarrow> string list \<times> nat option \<times> string" where
  "header_loop ws [] st = st"
| "header_loop ws (col # rest) st = header_loop ws rest (header_step ws col st)"

definition column_name_at :: "string list \<Rightarrow> nat \<Rightarrow> string" where
  "column_name_at cols col =
     (if col - 1 < length cols then cols ! (col - 1) else ''Column'' @ str_nat col)"

text \<open>The inner loop over the columns of one data row. The state is
  \<open>(row_dict, primary_key_value, has_data, test_result_columns)\<close>.\<close>

type_synonym row_state = "row_dict \<times> string option \<times> bool \<times> string list"

definition cell_step ::
  "worksheet \<Rightarrow> string list \<Rightarrow> nat \<Rightarrow> nat \<Rightarrow> nat \<Rightarrow> row_state \<Rightarrow> row_state" where
  "cell_step ws cols primary_key_col row col st =
     (let (row_dict, primary_key_value, has_data, trc) = st;
          s = cell_str (cell ws row col);
          column_name = column_name_at cols col;
          row_dict1 = dict_set column_name s row_dict;
          pkv1 = (if col = primary_key_col then Some s else primary_key_value);
          trc1 = (if startswith (lower column_name) ''test result'' \<and> column_name \<notin> set trc
                  then trc @ [column_name] else trc);
          has_data1 = (if s \<noteq> [] then True else has_data)
      in (row_dict1, pkv1, has_data1, trc1))"

fun cell_loop ::
  "worksheet \<Rightarrow> string list \<Rightarrow> nat \<Rightarrow> nat \<Rightarrow> nat list \<Rightarrow> row_state \<Rightarrow> row_state" where
  "cell_loop ws cols pkc row [] st = st"
| "cell_loop ws cols pkc row (col # rest) st =
     cell_loop ws cols pkc row rest (cell_step ws cols pkc row col st)"

text \<open>The body of the outer loop for one row; the state is
  \<open>(records, test_result_columns)\<close>.\<close>

definition row_step ::
  "worksheet \<Rightarrow> string list \<Rightarrow> nat \<Rightarrow> nat
     \<Rightarrow> (string, row_dict) dict \<times> string list \<Rightarrow> (string, row_dict) dict \<times> string list" where
  "row_step ws cols pkc row st =
     (let (recs, trc) = st;
          (row_dict, primary_key_value, has_data, trc1) =
             cell_loop ws cols pkc row [1 ..< max_column ws + 1] ([], None, False, trc)
      in case primary_key_value of
           None \<Rightarrow> (recs, trc1)
         | Some k \<Rightarrow> (if has_data \<and> k \<noteq> [] then (dict_set k row_dict recs, trc1)
                      else (recs, trc1)))"

fun row_loop ::
  "worksheet \<Rightarrow> string list \<Rightarrow> nat \<Rightarrow> nat list
     \<Rightarrow> (string, row_dict) dict \<times> string list \<Rightarrow> (string, row_dict) dict \<times> string list" where
  "row_loop ws cols pkc [] st = st"
| "row_loop ws cols pkc (row # rest) st = row_loop ws cols pkc rest (row_step ws cols pkc row st)"

text \<open>\<open>_parse_test_article_sheet\<close>; \<open>pk\<close> is \<open>self.primary_key\<close> on entry, and the
  \<open>primary_key\<close> field of the result is its value on exit. \<open>None\<close> is returned for a
  sheet with fewer than two rows and for a sheet without a primary key column.\<close>

definition parse_test_article_sheet :: "worksheet \<Rightarrow> string \<Rightarrow> string \<Rightarrow> sheet_data option" where
  "parse_test_article_sheet ws name pk =
     (if max_row ws < 2 then None
      else (let (cols, primary_key_col, pk1) =
                   header_loop ws [1 ..< max_column ws + 1] ([], None, pk)
            in case primary_key_col of
                 None \<Rightarrow> None
               | Some pkc \<Rightarrow>
                  (let (recs, trc) = row_loop ws cols pkc [2 ..< max_row ws + 1] ([], [])
                   in Some \<lparr> sheet_name = name, primary_key = pk1, columns = cols,
                              total_units = length recs, test_result_columns = trc,
                              test_results_analysis = analyze_test_results recs trc,
                              records = recs \<rparr>)))"

text \<open>The primary key column the header loop settles on (the last matching column).\<close>

definition primary_key_column :: "worksheet \<Rightarrow> string \<Rightarrow> nat option" where
  "primary_key_column ws pk =
     fst (snd (header_loop ws [1 ..< max_column ws + 1] ([], None, pk)))"

definition header_columns :: "worksheet \<Rightarrow> string \<Rightarrow> string list" where
  "header_columns ws pk = fst (header_loop ws [1 ..< max_column ws + 1] ([], None, pk))"

text \<open>The dictionary built for one data row, whether the row has any data, and the
  stripped text of its primary key cell.\<close>

definition row_dict_of :: "worksheet \<Rightarrow> string list \<Rightarrow> nat \<Rightarrow> row_dict" where
  "row_dict_of ws cols row =
     fst (cell_loop ws cols 0 row [1 ..< max_column ws + 1] ([], None, False, []))"

definition row_has_data :: "worksheet \<Rightarrow> nat \<Rightarrow> bool" where
  "row_has_data ws row = (\<exists>col \<in> set [1 ..< max_column ws + 1]. cell_str (cell ws row col) \<noteq> [])"

definition key_of_row :: "worksheet \<Rightarrow> nat \<Rightarrow> nat \<Rightarrow> string" where
  "key_of_row ws pkc row = cell_str (cell ws row pkc)"

text \<open>A worksheet given by its rows of cell values, for concrete examples.\<close>

definition grid_cell :: "cell_value list list \<Rightarrow> nat \<Rightarrow> nat \<Rightarrow> cell_value" where
  "grid_cell g r c =
     (if 1 \<le> r \<and> r - 1 < length g \<and> 1 \<le> c \<and> c - 1 < length (g ! (r - 1))
      then g ! (r - 1) ! (c - 1) else NoneV)"

definition sheet_of_grid :: "cell_value list list \<Rightarrow> worksheet" where
  "sheet_of_grid g =
     \<lparr> max_row = max 1 (length g), max_column = max 1 (foldr max (map length g) 0),
       cell = grid_cell g \<rparr>"

definition example_sheet :: worksheet where
  "example_sheet = sheet_of_grid
     [[StrV ''DUT Serial Number'', StrV ''Test Result''],
      [IntV 1001, StrV ''PASS''],
      [NoneV, StrV ''FAIL''],
      [StrV '' 1001 '', StrV ''TML'']]"

text \<open>The effect of one data row on the record map, as a finite map.\<close>

definition store_row ::
  "worksheet \<Rightarrow> string list \<Rightarrow> nat \<Rightarrow> nat \<Rightarrow> (string \<rightharpoonup> row_dict) \<Rightarrow> (string \<rightharpoonup> row_dict)" where
  "store_row ws cols pkc row m =
     (if key_of_row ws pkc row \<noteq> [] then m(key_of_row ws pkc row \<mapsto> row_dict_of ws cols row) else m)"

section \<open>ai\_agents: DeviceUnderTestAgent\<close>

subsection \<open>\_count\_test\_articles\_in\_content\<close>

definition header_keywords :: "string list" where
  "header_keywords = [''DUT PART NUMBER'', ''PART NUMBER'', ''SERIAL NUMBER'', ''LOT NUMBER'']"

text \<open>The body of the loop \<open>for line in lines\<close>, acting on \<open>unique_serial_numbers\<close>.\<close>

definition count_line :: "string \<Rightarrow> string set \<Rightarrow> string set" where
  "count_line line unique_serial_numbers =
     (if CHR ''|'' \<in> set line \<and> strip line \<noteq> [] \<and> \<not> startswith line ''===''
      then (let upper_line = upper line
            in if list_ex (\<lambda>header. py_in header upper_line) header_keywords
               then unique_serial_numbers
               else (let parts = map strip (split_on CHR ''|'' line)
                     in if length parts \<ge> 2
                        then (let potential_serial = strip (parts ! 1)
                              in if potential_serial \<noteq> [] \<and> isdigit potential_serial
                                    \<and> length potential_serial \<ge> 8
                                 then insert potential_serial unique_serial_numbers
                                 else unique_serial_numbers)
                        else unique_serial_numbers))
      else unique_serial_numbers)"

definition count_test_articles_in_content :: "string \<Rightarrow> nat" where
  "count_test_articles_in_content excel_data =
     (let lines = split_on CHR 0x0A excel_data;
          unique_serial_numbers = fold count_line lines {};
          dut_count = card unique_serial_numbers
      in max 1 dut_count)"

text \<open>
  The accepted serial numbers in the words of the specification: a data line is a
  pipe-delimited line that is not a worksheet banner and carries no header keyword; its
  candidate is the second pipe-delimited column, stripped; a candidate is accepted when it
  is all digits and at least 8 characters long.
\<close>

definition is_data_line :: "string \<Rightarrow> bool" where
  "is_data_line line =
     (CHR ''|'' \<in> set line \<and> \<not> startswith line ''===''
      \<and> (\<forall>header \<in> set header_keywords. \<not> py_in header (upper line)))"

definition second_column :: "string \<Rightarrow> string" where
  "second_column line = strip (split_on CHR ''|'' line ! 1)"

definition accepted_serials :: "string \<Rightarrow> string set" where
  "accepted_serials excel_data =
     {second_column line | line.
        line \<in> set (split_on CHR 0x0A excel_data) \<and> is_data_line line
        \<and> isdigit (second_column line) \<and> length (second_column line) \<ge> 8}"

section \<open>excel\_parsers: uploaded files and the combined parser\<close>

subsection \<open>\_parse\_sheet\_to\_dict\<close>






subsection \<open>Uploaded files and workbooks\<close>




datatype exn = ValueError string | IOError string | InvalidFile string




subsection \<open>The log parsers: DeviationsParser, DefectiveUnitsParser, EquipmentUsedParser\<close>








subsection \<open>TestArticleParser.parse\_excel\_file\<close>





subsection \<open>CombinedExcelParser.parse\_all\_excel\_files\<close>









section \<open>ai\_agents: the generation tasks\<close>

subsection \<open>The generation capability and the result envelope\<close>

text \<open>
  \<open>TaskResult\<close>: the success flag, the content and the error message. The metadata map
  and the attachment list do not depend on how the capability call ends other than
  through these three fields and are left out.
\<close>

record task_result =
  success :: bool
  content :: string
  error :: "string option"

text \<open>
  The outcome of the external text-generation call: no client is configured, the call
  raises with a message, or it returns a text (\<open>""\<close> when there is no response).
\<close>

datatype capability = NotConfigured | CallFails string | CallReturns string

text \<open>\<open>BaseDVTAgent.generate_content\<close>: \<open>Inl\<close> is the message of the raised exception.\<close>

definition ai_not_configured :: string where
  "ai_not_configured =
     [CHR 0xE2, CHR 0x9A, CHR 0xA0, CHR 0xEF, CHR 0xB8, CHR 0x8F] @ '' AI client not configured''"

fun generate_content :: "capability \<Rightarrow> string + string" where
  "generate_content NotConfigured = Inl ai_not_configured"
| "generate_content (CallFails e) = Inl (''AI generation failed: '' @ e)"
| "generate_content (CallReturns t) = Inr t"

text \<open>\<open>s.replace(old, new)\<close> for a non-empty \<open>old\<close>.\<close>

function replace_all :: "string \<Rightarrow> string \<Rightarrow> string \<Rightarrow> string" where
  "replace_all [] old new = []"
| "replace_all (x # xs) old new =
     (if old \<noteq> [] \<and> startswith (x # xs) old
      then new @ replace_all (drop (length old) (x # xs)) old new
      else x # replace_all xs old new)"
  by pat_completeness auto
termination
  by (relation "measure (\<lambda>(s, old, new). length s)") (auto simp: startswith_def)

subsection \<open>Tasks 4.1 to 4.4\<close>

text \<open>\<open>ScopeAndPurposeAgent.create_scope_and_purpose\<close>; \<open>scope_tables\<close> is the markdown of
  the scope tables found in the protocol.\<close>

definition create_scope_and_purpose :: "capability \<Rightarrow> string list \<Rightarrow> task_result" where
  "create_scope_and_purpose cap scope_tables =
     (case generate_content cap of
        Inl e \<Rightarrow> \<lparr> success = False, content = [], error = Some e \<rparr>
      | Inr c \<Rightarrow>
          (let c1 = (if scope_tables \<noteq> []
                        \<and> \<not> list_ex (\<lambda>line. CHR ''|'' \<in> set line) (split_on CHR 0x0A c)
                     then c @ ''\<newline>\<newline>''
                            @ concat (map (\<lambda>t. ''\<newline>'' @ t @ ''\<newline>'') scope_tables)
                     else c)
           in \<lparr> success = True, content = strip c1, error = None \<rparr>))"

definition create_reference_section :: "capability \<Rightarrow> task_result" where
  "create_reference_section cap =
     (case generate_content cap of
        Inl e \<Rightarrow> \<lparr> success = False, content = [], error = Some e \<rparr>
      | Inr c \<Rightarrow> \<lparr> success = True, content = strip c, error = None \<rparr>)"

definition create_test_procedure_summary :: "capability \<Rightarrow> task_result" where
  "create_test_procedure_summary cap =
     (case generate_content cap of
        Inl e \<Rightarrow> \<lparr> success = False, content = [], error = Some e \<rparr>
      | Inr c \<Rightarrow> \<lparr> success = True, content = strip c, error = None \<rparr>)"

definition fallback_acronyms_section :: string where
  "fallback_acronyms_section = join ''\<newline>''
     [''ACRONYMS & DEFINITIONS'', '''', ''Acronyms'',
      ''List in this section all acronyms referenced in this document.'', '''',
      ''| Acronym | Definition |'', ''|---------|------------|'',
      ''| DVT | Design Verification Testing |'', ''| DUT | Device Under Test |'',
      ''| TBD | To Be Determined |'', '''', ''Definitions'',
      ''List all relevant definitions for terms that have a specific meaning for the purpose of this document.'',
      '''', ''| Term | Definition |'', ''|------|------------|'',
      ''| Protocol | Test procedure document |'',
      ''| Conditioning | Environmental preparation phase |'', '''']"

definition create_acronyms_and_definitions :: "capability \<Rightarrow> task_result" where
  "create_acronyms_and_definitions cap =
     (case generate_content cap of
        Inl e \<Rightarrow> \<lparr> success = True, content = fallback_acronyms_section, error = None \<rparr>
      | Inr c \<Rightarrow> \<lparr> success = True, content = strip c, error = None \<rparr>)"

subsection \<open>Task 4.5: DeviceUnderTestAgent\<close>

record device_config =
  units_sterilized :: bool
  units_modified :: bool
  modification_description :: "string option"

definition create_fallback_section :: "device_config \<Rightarrow> string" where
  "create_fallback_section cfg =
     (let sterilized_text = (if units_sterilized cfg then ''sterilized'' else ''not sterilized'');
          modification_text =
            (if units_modified cfg
             then ''Modifications were made: '' @
                    (case modification_description cfg of
                       None \<Rightarrow> ''Details not specified'' | Some d \<Rightarrow> d)
             else ''No modifications were made outside normal manufacturing processes.'')
      in join ''\<newline>''
           [''DEVICE UNDER TEST CONFIGURATION'', '''',
            ''The test units were '' @ sterilized_text @ ''. '' @ modification_text, '''',
            ''[Test article details will be populated from uploaded Excel data]'', '''',
            ''| Part Number | Serial Number | Lot Number |'',
            ''|-------------|---------------|------------|'',
            ''| TBD | TBD | TBD |''])"

definition create_device_configuration_section :: "capability \<Rightarrow> device_config \<Rightarrow> task_result" where
  "create_device_configuration_section cap cfg =
     (case generate_content cap of
        Inl e \<Rightarrow> \<lparr> success = False, content = create_fallback_section cfg, error = Some e \<rparr>
      | Inr c \<Rightarrow> \<lparr> success = True, content = c, error = None \<rparr>)"

subsection \<open>Task 4.6: EquipmentUsedAgent\<close>

text \<open>
  \<open>_fallback_organize_data\<close>: the calibration statement, an empty line, and the lines of
  the three categories (\<open>category_lines\<close>, built from the parsed logs).
\<close>

definition fallback_organize_data :: "bool \<Rightarrow> string list \<Rightarrow> string" where
  "fallback_organize_data calibration_verified category_lines =
     join ''\<newline>''
       ([(if calibration_verified
          then ''All equipment used in this testing was verified as calibrated at the time of use.''
          else ''Equipment calibration status was not verified at the time of use.''), '''']
        @ category_lines)"

text \<open>\<open>EquipmentUsedAgent.process\<close>: \<open>no_data\<close> says that no log holds any row;
  \<open>attachment\<close> is the attachment file name when one is needed and could be created.\<close>

definition equipment_process ::
  "capability \<Rightarrow> bool \<Rightarrow> bool \<Rightarrow> string list \<Rightarrow> string option \<Rightarrow> task_result" where
  "equipment_process cap no_data calibration_verified category_lines attachment =
     (if no_data
      then \<lparr> success = True,
             content = ''No equipment, software, or material log data was found in the uploaded files.'',
             error = None \<rparr>
      else (let ai_organized_content =
                  (case cap of
                     CallReturns t \<Rightarrow> strip t
                   | _ \<Rightarrow> fallback_organize_data calibration_verified category_lines);
                c = (case attachment of
                       None \<Rightarrow> ai_organized_content
                     | Some filename \<Rightarrow> ai_organized_content
                         @ ''\<newline>\<newline>Detailed equipment, software, and material information is provided in ''
                         @ filename @ ''.'')
            in \<lparr> success = True, content = c, error = None \<rparr>))"

subsection \<open>Task 4.11: TestMethodLossAgent\<close>

definition generate_no_losses_content :: string where
  "generate_no_losses_content = ''No test method loss occurred in the execution of this test.''"

definition format_final_content :: "string \<Rightarrow> string" where
  "format_final_content ai_response =
     (if strip ai_response = [] then generate_no_losses_content
      else (let c = strip ai_response;
                c1 = (if startswith c ''## TEST METHOD LOSS INVESTIGATIONS''
                      then strip (replace_all c ''## TEST METHOD LOSS INVESTIGATIONS'' [])
                      else c);
                c2 = (if startswith c1 ''# TEST METHOD LOSS INVESTIGATIONS''
                      then strip (replace_all c1 ''# TEST METHOD LOSS INVESTIGATIONS'' [])
                      else c1)
            in c2))"

text \<open>\<open>_generate_ai_content\<close>; \<open>has_investigations\<close> says that the extracted data lists
  at least one investigation.\<close>

definition generate_ai_content :: "capability \<Rightarrow> bool \<Rightarrow> string" where
  "generate_ai_content cap has_investigations =
     (if \<not> has_investigations then generate_no_losses_content
      else (case generate_content cap of
              Inl e \<Rightarrow> generate_no_losses_content
            | Inr response \<Rightarrow>
                (if response \<noteq> [] then format_final_content response
                 else generate_no_losses_content)))"

text \<open>\<open>loss_data\<close> is \<open>None\<close> when no TEST METHOD LOSSES worksheet was found, otherwise
  whether it lists investigations.\<close>

definition create_test_method_loss_investigations :: "capability \<Rightarrow> bool option \<Rightarrow> task_result" where
  "create_test_method_loss_investigations cap loss_data =
     (case loss_data of
        None \<Rightarrow> \<lparr> success = True, content = generate_no_losses_content, error = None \<rparr>
      | Some has_investigations \<Rightarrow>
          (let processed_content = generate_ai_content cap has_investigations
           in if processed_content = []
              then \<lparr> success = False, content = [],
                     error = Some ''Failed to generate AI content for test method loss investigations'' \<rparr>
              else \<lparr> success = True, content = processed_content, error = None \<rparr>))"

subsection \<open>Task 4.7: TestResultSummaryAgent\<close>

text \<open>
  \<open>re.search(r'\[.*\]', response, re.DOTALL)\<close> finds a match exactly when an opening
  bracket is followed somewhere by a closing one.
\<close>

definition has_bracket_pair :: "string \<Rightarrow> bool" where
  "has_bracket_pair s = (CHR '']'' \<in> set (dropWhile (\<lambda>c. c \<noteq> CHR ''['') s))"

text \<open>\<open>_parse_criteria_response\<close>: without a bracketed part the list stays empty;
  \<open>parse_json\<close> stands for decoding the bracketed JSON (and the text fallback).\<close>

definition parse_criteria_response :: "(string \<Rightarrow> 'c list) \<Rightarrow> string \<Rightarrow> 'c list" where
  "parse_criteria_response parse_json response =
     (if has_bracket_pair response then parse_json response else [])"

definition extract_criteria_info :: "(string \<Rightarrow> 'c list) \<Rightarrow> capability \<Rightarrow> 'c list" where
  "extract_criteria_info parse_json cap =
     (case generate_content cap of
        Inl e \<Rightarrow> []
      | Inr response \<Rightarrow> parse_criteria_response parse_json response)"

definition default_table_note :: string where
  "default_table_note =
     ''\<newline>\<newline>*Note: Default template generated. Please update with actual Acceptance Criteria data.*''"

text \<open>\<open>create_test_result_summary\<close>: \<open>default_table\<close> is the table generated for the default
  (TBD) criterion, \<open>generate_table\<close> the table for extracted criteria.\<close>

definition create_test_result_summary ::
  "(string \<Rightarrow> 'c list) \<Rightarrow> ('c list \<Rightarrow> string) \<Rightarrow> string \<Rightarrow> capability \<Rightarrow> string \<Rightarrow> task_result" where
  "create_test_result_summary parse_json generate_table default_table cap acceptance_criteria_data =
     (if acceptance_criteria_data = []
      then \<lparr> success = True, content = default_table @ default_table_note, error = None \<rparr>
      else (let criteria_info = extract_criteria_info parse_json cap
            in if criteria_info = []
               then \<lparr> success = True, content = default_table @ default_table_note, error = None \<rparr>
               else \<lparr> success = True, content = generate_table criteria_info, error = None \<rparr>))"

subsection \<open>ProtocolDeviationsAgent, DefectiveUnitInvestigationsAgent, ConclusionAgent\<close>

text \<open>\<open>validate_and_format\<close> stands for the post-processing of a generated text.\<close>

definition process_deviations :: "(string \<Rightarrow> string) \<Rightarrow> capability \<Rightarrow> string \<Rightarrow> task_result" where
  "process_deviations validate_and_format cap deviations_text =
     (if deviations_text = [] \<or> strip deviations_text = ''No deviations data found.''
      then \<lparr> success = True, content = ''No deviations.'', error = None \<rparr>
      else (case generate_content cap of
              Inl e \<Rightarrow> \<lparr> success = False, content = ''No deviations.'',
                          error = Some (''Deviation processing failed: '' @ e) \<rparr>
            | Inr raw_content \<Rightarrow>
                (if raw_content = []
                 then \<lparr> success = False, content = ''No deviations.'',
                        error = Some ''Failed to generate deviation content'' \<rparr>
                 else \<lparr> success = True, content = validate_and_format raw_content, error = None \<rparr>)))"

definition process_defective_units :: "(string \<Rightarrow> string) \<Rightarrow> capability \<Rightarrow> string \<Rightarrow> task_result" where
  "process_defective_units validate_and_format cap defective_units_text =
     (if defective_units_text = [] \<or> strip defective_units_text = ''No defective units data found.''
      then \<lparr> success = True, content = ''No defective unit in the execution of this test.'',
             error = None \<rparr>
      else (case generate_content cap of
              Inl e \<Rightarrow> \<lparr> success = False,
                          content = ''No defective unit in the execution of this test.'',
                          error = Some (''Defective unit processing failed: '' @ e) \<rparr>
            | Inr raw_content \<Rightarrow>
                (if raw_content = []
                 then \<lparr> success = False,
                        content = ''No defective unit in the execution of this test.'',
                        error = Some ''Failed to generate defective unit content'' \<rparr>
                 else \<lparr> success = True, content = validate_and_format raw_content, error = None \<rparr>)))"

definition generate_conclusion :: "capability \<Rightarrow> string \<Rightarrow> string \<Rightarrow> task_result" where
  "generate_conclusion cap test_results_content scope_content =
     (if test_results_content = [] \<or> scope_content = []
      then \<lparr> success = False, content = [],
             error = Some ''Missing test results or scope content for conclusion generation'' \<rparr>
      else (case generate_content cap of
              Inl e \<Rightarrow> \<lparr> success = False, content = [],
                          error = Some (''Error in conclusion generation: '' @ e) \<rparr>
            | Inr c \<Rightarrow>
                (if c \<noteq> [] then \<lparr> success = True, content = c, error = Some [] \<rparr>
                 else \<lparr> success = False, content = [],
                        error = Some ''AI failed to generate conclusion content'' \<rparr>)))"

text \<open>The capability call raises (no client, or a failing call) or returns empty content.\<close>

definition call_raises :: "capability \<Rightarrow> bool" where
  "call_raises cap = (case cap of CallReturns t \<Rightarrow> False | _ \<Rightarrow> True)"

definition call_fails_or_empty :: "capability \<Rightarrow> bool" where
  "call_fails_or_empty cap = (call_raises cap \<or> cap = CallReturns [])"

section \<open>doc\_parsers: DocumentParser\<close>

subsection \<open>Document elements and the section tree\<close>

text \<open>
  The body of a Word document is a sequence of elements: paragraphs (their text), tables
  (rows of cell texts) and other elements, which the parser passes over.
\<close>

datatype element = Paragraph string | Table "string list list" | OtherElement

datatype content_item = TextItem string | TableItem "row_dict list"

text \<open>
  A section is a plain string (a sub-section that only has its heading line) or a
  dictionary with an optional \<open>title\<close> entry and the entries \<open>content_1\<close>, \<open>content_2\<close>, ...
\<close>

datatype section_data = Leaf string | Node "string option" "(string, content_item) dict"

record parser_state =
  parsed_data :: "(string, section_data) dict"
  current_section :: "string option"
  content_counter :: "(string, nat) dict"
  stop_parsing :: bool

definition initial_state :: parser_state where
  "initial_state = \<lparr> parsed_data = [], current_section = None, content_counter = [],
                       stop_parsing = False \<rparr>"

subsection \<open>\_should\_stop\_parsing\<close>

definition appendices_patterns :: "string list" where
  "appendices_patterns =
     [''appendices'', ''appendix'',
      [CHR 0xE9, CHR 0x99, CHR 0x84, CHR 0xE5, CHR 0xBD, CHR 0x95], ''attachments'']"

definition should_stop_parsing :: "string \<Rightarrow> bool" where
  "should_stop_parsing text =
     (let text_lower = strip (lower text)
      in if list_ex (\<lambda>pattern. text_lower = pattern \<or> startswith text_lower (pattern @ '' '')
                                \<or> startswith text_lower (pattern @ '':'')) appendices_patterns
         then True
         else if list_ex (\<lambda>pattern. py_in pattern text_lower) appendices_patterns
                 \<and> length (strip text) < 50
         then True
         else False)"

subsection \<open>\_extract\_section\_number\<close>

text \<open>
  The common prefix \<open>^(\d+\.\d+)\<close> of the three numbered patterns, matched greedily:
  the section number and the rest of the text. (Giving back digits never helps a match,
  since the character after a shorter number is a digit.)
\<close>

definition split_number :: "string \<Rightarrow> (string \<times> string) option" where
  "split_number text =
     (let d1 = takeWhile is_digit text; r1 = dropWhile is_digit text
      in case r1 of
           [] \<Rightarrow> None
         | c # r2 \<Rightarrow>
            (let d2 = takeWhile is_digit r2; r3 = dropWhile is_digit r2
             in if d1 \<noteq> [] \<and> c = CHR ''.'' \<and> d2 \<noteq> [] then Some (d1 @ ''.'' @ d2, r3)
                else None))"

text \<open>\<open>(.*)$\<close>: the rest of the text up to its end, or up to one final newline; no
  other newline may occur.\<close>

definition to_end :: "string \<Rightarrow> string option" where
  "to_end r =
     (if CHR 0x0A \<notin> set r then Some r
      else if r \<noteq> [] \<and> last r = CHR 0x0A \<and> CHR 0x0A \<notin> set (butlast r) then Some (butlast r)
      else None)"

text \<open>\<open>^(\d+\.\d+)\s+(.*)$\<close>\<close>

definition pattern1 :: "string \<Rightarrow> (string \<times> string) option" where
  "pattern1 text =
     (case split_number text of
        None \<Rightarrow> None
      | Some (num, r) \<Rightarrow>
          (if r \<noteq> [] \<and> is_space (hd r)
           then (case to_end (dropWhile is_space r) of
                   None \<Rightarrow> None | Some g \<Rightarrow> Some (num, g))
           else None))"

text \<open>\<open>^(\d+\.\d+)\.?\s*(.*)$\<close>\<close>

definition pattern2 :: "string \<Rightarrow> (string \<times> string) option" where
  "pattern2 text =
     (case split_number text of
        None \<Rightarrow> None
      | Some (num, r) \<Rightarrow>
          (let r1 = (if r \<noteq> [] \<and> hd r = CHR ''.'' then tl r else r)
           in case to_end (dropWhile is_space r1) of
                None \<Rightarrow> None | Some g \<Rightarrow> Some (num, g)))"

text \<open>\<open>^(\d+\.\d+)\s*:\s*(.*)$\<close>\<close>

definition pattern3 :: "string \<Rightarrow> (string \<times> string) option" where
  "pattern3 text =
     (case split_number text of
        None \<Rightarrow> None
      | Some (num, r) \<Rightarrow>
          (let r1 = dropWhile is_space r
           in if r1 \<noteq> [] \<and> hd r1 = CHR '':''
              then (case to_end (dropWhile is_space (tl r1)) of
                      None \<Rightarrow> None | Some g \<Rightarrow> Some (num, g))
              else None))"

definition section_titles :: "string list" where
  "section_titles =
     [''Purpose'', ''Scope'', ''Background'', ''Test Method Summary'', ''References'',
      ''Definitions'', ''Responsibility'', ''Materials'', ''Equipment'',
      ''General Instructions'', ''Procedure'', ''Acceptance Criteria'',
      ''Device Under Test Configuration'', ''Test Consumables'',
      ''Test Method'', ''Test Setup'', ''Test Execution'', ''Data Analysis'']"

definition section_mapping :: "(string \<times> int) list" where
  "section_mapping =
     [(''Purpose'', 1), (''Scope'', 2), (''Background'', 3), (''Test Method Summary'', 4),
      (''References'', 5), (''Definitions'', 6), (''Responsibility'', 7), (''Materials'', 8),
      (''Device Under Test Configuration'', 9), (''Test Consumables'', 10), (''Equipment'', 11),
      (''General Instructions'', 12), (''Procedure'', 13), (''Test Method'', 14),
      (''Test Setup'', 15), (''Test Execution'', 16), (''Data Analysis'', 17),
      (''Acceptance Criteria'', 18)]"

text \<open>\<open>_get_section_index\<close>; \<open>py_hash\<close> is Python's \<open>hash\<close> on strings.\<close>

definition get_section_index :: "(string \<Rightarrow> int) \<Rightarrow> string \<Rightarrow> int" where
  "get_section_index py_hash section_title =
     (let title_lower = lower section_title
      in case find (\<lambda>(key, v). py_in (lower key) title_lower) section_mapping of
           Some (key, v) \<Rightarrow> v
         | None \<Rightarrow> \<bar>py_hash section_title\<bar> mod 100 + 20)"

definition extract_section_number :: "(string \<Rightarrow> int) \<Rightarrow> string \<Rightarrow> (string \<times> string) option" where
  "extract_section_number py_hash text =
     (case pattern1 text of
        Some (num, g) \<Rightarrow> Some (num, strip g)
      | None \<Rightarrow>
     (case pattern2 text of
        Some (num, g) \<Rightarrow> Some (num, strip g)
      | None \<Rightarrow>
     (case pattern3 text of
        Some (num, g) \<Rightarrow> Some (num, strip g)
      | None \<Rightarrow>
         (let text_clean = strip text; text_lower = lower text_clean
          in if length text_clean < 100
                \<and> list_ex (\<lambda>title. py_in (lower title) text_lower) section_titles
             then Some (str_int (get_section_index py_hash text_clean) @ ''.0'', text_clean)
             else None))))"

definition is_main_section :: "string \<Rightarrow> bool" where
  "is_main_section section_num = endswith section_num ''.0''"

subsection \<open>\_add\_content\_to\_section, \_process\_paragraph, \_process\_table\<close>

text \<open>The counter of a section is set whenever the section becomes the current one, so
  the lookup in \<open>_add_content_to_section\<close> always finds it.\<close>

definition add_content_to_section :: "string \<Rightarrow> content_item \<Rightarrow> parser_state \<Rightarrow> parser_state" where
  "add_content_to_section section_num item st =
     (let pd0 = (if section_num \<in> set (dict_keys (parsed_data st)) then parsed_data st
                 else dict_set section_num (Node None []) (parsed_data st));
          cc0 = content_counter st;
          (pd1, cc1) =
            (case dict_get pd0 section_num (Node None []) of
               Leaf original_text \<Rightarrow>
                 (dict_set section_num (Node None [(''content_1'', TextItem original_text)]) pd0,
                  dict_set section_num 1 cc0)
             | Node title items \<Rightarrow> (pd0, cc0));
          n = dict_get cc1 section_num 0 + 1;
          cc2 = dict_set section_num n cc1;
          content_key = ''content_'' @ str_nat n;
          pd2 = (case dict_get pd1 section_num (Node None []) of
                   Node title items \<Rightarrow>
                     dict_set section_num (Node title (dict_set content_key item items)) pd1
                 | Leaf t \<Rightarrow> pd1)
      in st\<lparr>parsed_data := pd2, content_counter := cc2\<rparr>)"

definition process_paragraph :: "(string \<Rightarrow> int) \<Rightarrow> string \<Rightarrow> parser_state \<Rightarrow> parser_state" where
  "process_paragraph py_hash paragraph_text st =
     (let text = strip paragraph_text
      in if text = [] then st
         else if should_stop_parsing text then st\<lparr>stop_parsing := True\<rparr>
         else (case extract_section_number py_hash text of
                 Some (section_num, title) \<Rightarrow>
                   (if is_main_section section_num
                    then st\<lparr>current_section := Some section_num,
                            parsed_data := dict_set section_num (Node (Some title) []) (parsed_data st),
                            content_counter := dict_set section_num 0 (content_counter st)\<rparr>
                    else st\<lparr>current_section := Some section_num,
                            parsed_data := dict_set section_num (Leaf text) (parsed_data st),
                            content_counter := dict_set section_num 0 (content_counter st)\<rparr>)
               | None \<Rightarrow>
                   (case current_section st of
                      Some cur \<Rightarrow> add_content_to_section cur (TextItem text) st
                    | None \<Rightarrow> st)))"

text \<open>One table row as a dictionary from header to stripped cell text.\<close>

fun row_data_of :: "string list \<Rightarrow> nat \<Rightarrow> string list \<Rightarrow> row_dict \<Rightarrow> row_dict" where
  "row_data_of headers i [] row_data = row_data"
| "row_data_of headers i (c # cells) row_data =
     row_data_of headers (i + 1) cells
       (dict_set (if i < length headers then headers ! i else ''Column_'' @ str_nat (i + 1))
                 (strip c) row_data)"

definition table_data_of :: "string list list \<Rightarrow> row_dict list" where
  "table_data_of rows =
     (case rows of
        [] \<Rightarrow> []
      | first_row # data_rows \<Rightarrow>
          (let headers = map strip first_row
           in map (\<lambda>row. row_data_of headers 0 row []) data_rows))"

definition process_table :: "string list list \<Rightarrow> parser_state \<Rightarrow> parser_state" where
  "process_table rows st =
     (case current_section st of
        None \<Rightarrow> st
      | Some cur \<Rightarrow> add_content_to_section cur (TableItem (table_data_of rows)) st)"

subsection \<open>parse\_document\<close>

fun process_element :: "(string \<Rightarrow> int) \<Rightarrow> element \<Rightarrow> parser_state \<Rightarrow> parser_state" where
  "process_element py_hash (Paragraph t) st = process_paragraph py_hash t st"
| "process_element py_hash (Table rows) st = process_table rows st"
| "process_element py_hash OtherElement st = st"

text \<open>The loop \<open>for element in doc.element.body\<close>, left as soon as the flag is set.\<close>

fun parse_elements :: "(string \<Rightarrow> int) \<Rightarrow> element list \<Rightarrow> parser_state \<Rightarrow> parser_state" where
  "parse_elements py_hash [] st = st"
| "parse_elements py_hash (e # es) st =
     (if stop_parsing st then st
      else parse_elements py_hash es (process_element py_hash e st))"

definition parse_document :: "(string \<Rightarrow> int) \<Rightarrow> element list \<Rightarrow> (string, section_data) dict" where
  "parse_document py_hash body = parsed_data (parse_elements py_hash body initial_state)"

text \<open>A paragraph the parser recognises as an appendices or attachments heading.\<close>

definition is_appendices_heading :: "string \<Rightarrow> bool" where
  "is_appendices_heading t = (strip t \<noteq> [] \<and> should_stop_parsing (strip t))"

subsection \<open>format\_for\_ai\_prompt\<close>

definition int_of_digits :: "string \<Rightarrow> int" where
  "int_of_digits ds = foldl (\<lambda>a c. 10 * a + (of_char c - 48)) 0 ds"

text \<open>
  \<open>int(s)\<close> on a string: surrounding whitespace and one sign are allowed, single
  underscores may separate digits; anything else raises \<open>ValueError\<close> (\<open>None\<close>).
\<close>

definition valid_int_body :: "string \<Rightarrow> bool" where
  "valid_int_body b =
     (b \<noteq> [] \<and> is_digit (hd b) \<and> is_digit (last b)
      \<and> list_all (\<lambda>c. is_digit c \<or> c = CHR ''_'') b \<and> \<not> py_in ''__'' b)"

definition py_int :: "string \<Rightarrow> int option" where
  "py_int s =
     (let t = strip s;
          (neg, b) = (case t of
                        [] \<Rightarrow> (False, t)
                      | c # r \<Rightarrow> if c = CHR ''-'' then (True, r)
                                 else if c = CHR ''+'' then (False, r) else (False, t))
      in if valid_int_body b
         then Some ((if neg then - 1 else 1) * int_of_digits (filter is_digit b))
         else None)"

text \<open>\<open>_sort_section_key\<close>: \<open>None\<close> when \<open>int()\<close> or the index \<open>parts[1]\<close> raises.\<close>

definition sort_section_key :: "string \<Rightarrow> (int \<times> int) option" where
  "sort_section_key section_num =
     (case split_on CHR ''.'' section_num of
        p0 # p1 # rest \<Rightarrow>
          (case py_int p0 of
             None \<Rightarrow> None
           | Some a \<Rightarrow> (case py_int p1 of None \<Rightarrow> None | Some b \<Rightarrow> Some (a, b)))
      | _ \<Rightarrow> None)"

text \<open>\<open>_extract_content_number\<close>: the number after the first \<open>content_\<close> that is followed
  by a digit, 0 when there is none.\<close>

fun extract_content_number :: "string \<Rightarrow> int" where
  "extract_content_number [] = 0"
| "extract_content_number (x # xs) =
     (if startswith (x # xs) ''content_''
         \<and> takeWhile is_digit (drop 8 (x # xs)) \<noteq> []
      then int_of_digits (takeWhile is_digit (drop 8 (x # xs)))
      else extract_content_number xs)"

text \<open>\<open>_format_content_item\<close>; \<open>repr_row\<close> is Python's rendering of a row dictionary.\<close>

fun format_rows :: "(row_dict \<Rightarrow> string) \<Rightarrow> nat \<Rightarrow> row_dict list \<Rightarrow> string" where
  "format_rows repr_row i [] = []"
| "format_rows repr_row i (row # rows) =
     [CHR 0xE8, CHR 0xA1, CHR 0x8C] @ str_nat (i + 1) @ '': '' @ repr_row row @ ''\<newline>''
       @ format_rows repr_row (i + 1) rows"

fun format_content_item :: "(row_dict \<Rightarrow> string) \<Rightarrow> content_item \<Rightarrow> string" where
  "format_content_item repr_row (TableItem table_data) =
     (if table_data \<noteq> []
      then [CHR 0x23, CHR 0x23, CHR 0x23, CHR 0x20, CHR 0xE8, CHR 0xA1, CHR 0xA8, CHR 0xE6,
            CHR 0xA0, CHR 0xBC, CHR 0xE5, CHR 0x86, CHR 0x85, CHR 0xE5, CHR 0xAE, CHR 0xB9,
            CHR 0x3A] @ ''\<newline>''
           @ format_rows repr_row 0 (take 3 table_data)
           @ (if length table_data > 3
              then [CHR 0x2E, CHR 0x2E, CHR 0x2E, CHR 0x20, CHR 0x28, CHR 0xE5, CHR 0x85, CHR 0xB1]
                   @ str_nat (length table_data)
                   @ [CHR 0xE8, CHR 0xA1, CHR 0x8C, CHR 0xE6, CHR 0x95, CHR 0xB0, CHR 0xE6,
                      CHR 0x8D, CHR 0xAE, CHR 0x29] @ ''\<newline>''
              else [])
      else [CHR 0x23, CHR 0x23, CHR 0x23, CHR 0x20, CHR 0xE7, CHR 0xA9, CHR 0xBA, CHR 0xE8,
            CHR 0xA1, CHR 0xA8, CHR 0xE6, CHR 0xA0, CHR 0xBC] @ ''\<newline>'')"
| "format_content_item repr_row (TextItem v) = v @ ''\<newline>''"

text \<open>The entries appended to \<open>formatted_sections\<close> for one section.\<close>

definition format_section ::
  "(row_dict \<Rightarrow> string) \<Rightarrow> (string, section_data) dict \<Rightarrow> string \<Rightarrow> string list" where
  "format_section repr_row pd section_num =
     (case dict_get pd section_num (Node None []) of
        Leaf s \<Rightarrow> [''## '' @ section_num @ ''\<newline>'' @ s @ ''\<newline>'']
      | Node (Some title) items \<Rightarrow>
          (''## '' @ section_num @ '': '' @ title @ ''\<newline>'')
            # map (\<lambda>(k, v). format_content_item repr_row v)
                  (sort_key (\<lambda>(k, v). extract_content_number k) items)
      | Node None items \<Rightarrow>
          (''## '' @ section_num @ ''\<newline>'')
            # map (\<lambda>(k, v). format_content_item repr_row v)
                  (sort_key (\<lambda>(k, v). extract_content_number k) items))"

text \<open>The section numbers in the order \<open>sorted(..., key=self._sort_section_key)\<close> visits
  them; \<open>None\<close> when a key function call raises.\<close>

definition sorted_sections :: "(string, section_data) dict \<Rightarrow> string list option" where
  "sorted_sections pd =
     (if list_all (\<lambda>k. sort_section_key k \<noteq> None) (dict_keys pd)
      then Some (sort_key (\<lambda>k. the (sort_section_key k)) (dict_keys pd))
      else None)"

definition format_for_ai_prompt ::
  "(row_dict \<Rightarrow> string) \<Rightarrow> (string, section_data) dict \<Rightarrow> exn + string" where
  "format_for_ai_prompt repr_row pd =
     (case sorted_sections pd of
        None \<Rightarrow> Inl (ValueError ''invalid literal for int()'')
      | Some ks \<Rightarrow> Inr (join ''\<newline>'' (concat (map (format_section repr_row pd) ks))))"

text \<open>
  The numeric reading of a section identifier \<open>major.minor\<close>: the values of the digit
  strings before and after the dot.
\<close>

definition major_minor :: "string \<Rightarrow> int \<times> int" where
  "major_minor k =
     (int_of_digits (takeWhile (\<lambda>c. c \<noteq> CHR ''.'') k),
      int_of_digits (drop 1 (dropWhile (\<lambda>c. c \<noteq> CHR ''.'') k)))"

text \<open>Section identifiers as the parser produces them: digits, a dot, digits.\<close>

definition wf_section_num :: "string \<Rightarrow> bool" where
  "wf_section_num k =
     (isdigit (takeWhile (\<lambda>c. c \<noteq> CHR ''.'') k)
      \<and> dropWhile (\<lambda>c. c \<noteq> CHR ''.'') k \<noteq> []
      \<and> isdigit (drop 1 (dropWhile (\<lambda>c. c \<noteq> CHR ''.'') k)))"

text \<open>The invariant of the parser: the section identifiers in use are well-formed.\<close>

definition wf_state :: "parser_state \<Rightarrow> bool" where
  "wf_state st =
     ((\<forall>k \<in> set (dict_keys (parsed_data st)). wf_section_num k)
      \<and> (\<forall>c. current_section st = Some c \<longrightarrow> wf_section_num c))"

text \<open>A small protocol document: sections out of numeric order, then an appendices
  heading followed by further content.\<close>

definition example_before :: "element list" where
  "example_before =
     [Paragraph ''10.0 END'', Paragraph ''ok'', Paragraph ''2.0 AIM'',
      Paragraph ''2.10 a'', Paragraph ''b'', Table [[''H''], [''c '']], Paragraph ''2.9 x'']"

definition example_after :: "element list" where
  "example_after = [Paragraph ''11.0 RAW'', Paragraph ''d'', Table [[''A''], [''b'']]]"

section \<open>Properties\<close>

lemma analyze_cell_tml:
  "test_method_losses (fst (analyze_cell record col (a, h))) =
     test_method_losses a + (if is_tml_cell record col then 1 else 0)"
  by (simp add: analyze_cell_def is_tml_cell_def Let_def)

lemma analyze_cols_tml:
  "test_method_losses (fst (analyze_cols record cols st)) =
     test_method_losses (fst st) + int (length (filter (is_tml_cell record) cols))"
proof (induction cols arbitrary: st)
  case Nil
  show ?case by simp
next
  case (Cons col cols)
  obtain a h where st: "st = (a, h)" by (cases st)
  show ?case using Cons.IH [of "analyze_cell record col st"]
    by (simp add: st analyze_cell_tml)
qed

lemma analyze_records_tml:
  "test_method_losses (analyze_records recs cols a) =
     test_method_losses a + int (count_tml_cells recs cols)"
proof (induction recs arbitrary: a)
  case Nil
  show ?case by (simp add: count_tml_cells_def)
next
  case (Cons kr rest)
  obtain k r where kr: "kr = (k, r)" by (cases kr)
  obtain a1 h where ac: "analyze_cols r cols (a, False) = (a1, h)"
    by (cases "analyze_cols r cols (a, False)")
  have a1: "test_method_losses a1 =
      test_method_losses a + int (length (filter (is_tml_cell r) cols))"
    using analyze_cols_tml [of r cols "(a, False)"] by (simp add: ac)
  show ?case
    using Cons.IH by (simp add: kr ac a1 count_tml_cells_def)
qed

text \<open>
  C2: whenever statistics are derived (there is at least one result column), the actual
  sample size is the number of keyed records minus the test-method losses, the losses
  being the number of result cells classified as losses; without result columns only a
  message is returned. The difference can be negative: one record with two loss cells
  gives an actual sample size of -1.
\<close>

theorem analyze_test_results_sample_size:
  "(cols \<noteq> [] \<longrightarrow>
      (\<exists>a. analyze_test_results recs cols = Stats a
          \<and> actual_sample_size a = int (length recs) - test_method_losses a
          \<and> test_method_losses a = int (count_tml_cells recs cols)))
   \<and> (cols = [] \<longrightarrow> analyze_test_results recs cols = Message ''No test result columns found'')
   \<and> (\<exists>recs' cols' a'. analyze_test_results recs' cols' = Stats a' \<and> actual_sample_size a' < 0)"
proof (intro conjI impI)
  assume "cols \<noteq> []"
  then show "\<exists>a. analyze_test_results recs cols = Stats a
          \<and> actual_sample_size a = int (length recs) - test_method_losses a
          \<and> test_method_losses a = int (count_tml_cells recs cols)"
    by (simp add: analyze_test_results_def Let_def analyze_records_tml analysis0_def)
next
  assume "cols = []"
  then show "analyze_test_results recs cols = Message ''No test result columns found''"
    by (simp add: analyze_test_results_def)
next
  have "analyze_test_results [(''SN1'', [(''Test Result 1'', ''TML''), (''Test Result 2'', ''TML'')])]
          [''Test Result 1'', ''Test Result 2'']
        = Stats \<lparr> test_method_losses = 2, total_tests_performed = 2, pass_count = 0,
                   fail_count = 0, tml_count = 2, actual_sample_size = - 1 \<rparr>"
    by code_simp
  then show "\<exists>recs' cols' a'. analyze_test_results recs' cols' = Stats a' \<and> actual_sample_size a' < 0"
    by (intro exI [where x = "\<lparr> test_method_losses = 2, total_tests_performed = 2, pass_count = 0,
                   fail_count = 0, tml_count = 2, actual_sample_size = - 1 \<rparr>"] exI conjI) simp_all
qed

theorem analyze_test_results_sample_size_witness:
  "[''Test Result''] \<noteq> []
   \<and> (\<exists>a. analyze_test_results
            [(''10000001'', [(''Test Result'', ''PASS'')]), (''10000002'', [(''Test Result'', ''tml '')])]
            [''Test Result''] = Stats a
          \<and> actual_sample_size a = 2 - test_method_losses a
          \<and> test_method_losses a = 1)"
proof -
  have c: "count_tml_cells
        [(''10000001'', [(''Test Result'', ''PASS'')]), (''10000002'', [(''Test Result'', ''tml '')])]
        [''Test Result''] = 1"
    by code_simp
  show ?thesis
    using analyze_test_results_sample_size
      [of "[''Test Result'']"
          "[(''10000001'', [(''Test Result'', ''PASS'')]), (''10000002'', [(''Test Result'', ''tml '')])]"]
    by (simp add: c)
qed

subsection \<open>Insertion-ordered dictionaries\<close>

lemma map_of_dict_set: "map_of (dict_set k v d) = (map_of d)(k \<mapsto> v)"
  by (induction d) (auto simp: fun_upd_twist)

lemma dict_keys_dict_set: "set (dict_keys (dict_set k v d)) = insert k (set (dict_keys d))"
  by (induction d) (force simp: dict_keys_def split: if_splits)+

lemma distinct_dict_set: "distinct (dict_keys d) \<Longrightarrow> distinct (dict_keys (dict_set k v d))"
proof (induction d)
  case Nil show ?case by (simp add: dict_keys_def)
next
  case (Cons a d)
  obtain k' v' where a: "a = (k', v')" by (cases a)
  from Cons show ?case using dict_keys_dict_set [of k v d]
    by (auto simp: a dict_keys_def)
qed

subsection \<open>The loops of \_parse\_test\_article\_sheet\<close>

lemma cell_loop_pkv:
  "fst (snd (cell_loop ws cols pkc row cs (d, pkv, h, trc))) =
     (if pkc \<in> set cs then Some (cell_str (cell ws row pkc)) else pkv)"
  by (induction cs arbitrary: d pkv h trc) (auto simp: cell_step_def Let_def)

lemma cell_loop_has_data:
  "fst (snd (snd (cell_loop ws cols pkc row cs (d, pkv, h, trc)))) =
     (h \<or> (\<exists>c \<in> set cs. cell_str (cell ws row c) \<noteq> []))"
  by (induction cs arbitrary: d pkv h trc) (auto simp: cell_step_def Let_def)

lemma cell_loop_dict:
  "fst (cell_loop ws cols pkc row cs (d, pkv, h, trc)) =
   fst (cell_loop ws cols pkc' row cs (d, pkv', h', trc'))"
  by (induction cs arbitrary: d pkv h trc pkv' h' trc') (auto simp: cell_step_def Let_def)

text \<open>One row, when the primary key column lies inside the sheet: the row is stored
  under its key exactly when the key cell is not empty.\<close>

lemma row_step_records:
  assumes "pkc \<in> set [1 ..< max_column ws + 1]"
  shows "fst (row_step ws cols pkc row (recs, trc)) =
           (if key_of_row ws pkc row \<noteq> []
            then dict_set (key_of_row ws pkc row) (row_dict_of ws cols row) recs else recs)"
proof -
  define cs where "cs = [1 ..< max_column ws + 1]"
  have inc: "pkc \<in> set cs" using assms unfolding cs_def .
  obtain d pkv h trc1 where cl:
    "cell_loop ws cols pkc row cs ([], None, False, trc) = (d, pkv, h, trc1)"
    by (cases "cell_loop ws cols pkc row cs ([], None, False, trc)") auto
  have pkv: "pkv = Some (key_of_row ws pkc row)"
    using cell_loop_pkv [of ws cols pkc row cs "[]" None False trc] inc
    by (simp add: cl key_of_row_def)
  have h: "h = (\<exists>c \<in> set cs. cell_str (cell ws row c) \<noteq> [])"
    using cell_loop_has_data [of ws cols pkc row cs "[]" None False trc]
    by (simp add: cl)
  have hk: "key_of_row ws pkc row \<noteq> [] \<Longrightarrow> h"
    unfolding h key_of_row_def using inc by blast
  have d: "d = row_dict_of ws cols row"
    using cell_loop_dict [of ws cols pkc row cs "[]" None False trc 0 None False "[]"]
    unfolding row_dict_of_def cs_def [symmetric] by (simp add: cl)
  have "fst (row_step ws cols pkc row (recs, trc)) =
          (if h \<and> key_of_row ws pkc row \<noteq> []
           then dict_set (key_of_row ws pkc row) d recs else recs)"
    unfolding row_step_def cs_def [symmetric] by (simp add: cl pkv)
  then show ?thesis using hk by (auto simp: d)
qed

lemma row_loop_map_of:
  assumes "pkc \<in> set [1 ..< max_column ws + 1]"
  shows "map_of (fst (row_loop ws cols pkc rows (recs, trc))) =
           fold (store_row ws cols pkc) rows (map_of recs)"
proof (induction rows arbitrary: recs trc)
  case Nil show ?case by simp
next
  case (Cons row rows)
  obtain recs1 trc1 where rs: "row_step ws cols pkc row (recs, trc) = (recs1, trc1)"
    by (cases "row_step ws cols pkc row (recs, trc)")
  have r1: "recs1 = (if key_of_row ws pkc row \<noteq> []
            then dict_set (key_of_row ws pkc row) (row_dict_of ws cols row) recs else recs)"
    using row_step_records [OF assms, of cols row recs trc] by (simp add: rs)
  have "map_of recs1 = store_row ws cols pkc row (map_of recs)"
    by (simp add: r1 store_row_def map_of_dict_set)
  then show ?case using Cons.IH [of recs1 trc1] by (simp add: rs)
qed

lemma row_loop_keys:
  assumes "pkc \<in> set [1 ..< max_column ws + 1]"
  shows "set (dict_keys (fst (row_loop ws cols pkc rows (recs, trc)))) =
           set (dict_keys recs) \<union> {key_of_row ws pkc r | r. r \<in> set rows \<and> key_of_row ws pkc r \<noteq> []}"
proof (induction rows arbitrary: recs trc)
  case Nil show ?case by simp
next
  case (Cons row rows)
  obtain recs1 trc1 where rs: "row_step ws cols pkc row (recs, trc) = (recs1, trc1)"
    by (cases "row_step ws cols pkc row (recs, trc)")
  have r1: "recs1 = (if key_of_row ws pkc row \<noteq> []
            then dict_set (key_of_row ws pkc row) (row_dict_of ws cols row) recs else recs)"
    using row_step_records [OF assms, of cols row recs trc] by (simp add: rs)
  have k1: "set (dict_keys recs1) =
      set (dict_keys recs) \<union> {key_of_row ws pkc r | r. r = row \<and> key_of_row ws pkc r \<noteq> []}"
    by (auto simp: r1 dict_keys_dict_set)
  show ?case using Cons.IH [of recs1 trc1] by (auto simp: rs k1)
qed

lemma row_loop_distinct:
  assumes "pkc \<in> set [1 ..< max_column ws + 1]" and "distinct (dict_keys recs)"
  shows "distinct (dict_keys (fst (row_loop ws cols pkc rows (recs, trc))))"
  using assms(2)
proof (induction rows arbitrary: recs trc)
  case Nil then show ?case by simp
next
  case (Cons row rows)
  obtain recs1 trc1 where rs: "row_step ws cols pkc row (recs, trc) = (recs1, trc1)"
    by (cases "row_step ws cols pkc row (recs, trc)")
  have r1: "recs1 = (if key_of_row ws pkc row \<noteq> []
            then dict_set (key_of_row ws pkc row) (row_dict_of ws cols row) recs else recs)"
    using row_step_records [OF assms(1), of cols row recs trc] by (simp add: rs)
  have "distinct (dict_keys recs1)"
    using Cons.prems by (simp add: r1 distinct_dict_set)
  then show ?case using Cons.IH [of recs1 trc1] by (simp add: rs)
qed

text \<open>Last write wins: a row whose key no later row repeats is the one stored.\<close>

lemma fold_store_row_other:
  "\<forall>r \<in> set rows. key_of_row ws pkc r \<noteq> k \<Longrightarrow>
     fold (store_row ws cols pkc) rows m k = m k"
  by (induction rows arbitrary: m) (auto simp: store_row_def)

lemma fold_store_row_last:
  assumes "key_of_row ws pkc r \<noteq> []"
    and "\<forall>r' \<in> set post. key_of_row ws pkc r' \<noteq> key_of_row ws pkc r"
  shows "fold (store_row ws cols pkc) (pre @ r # post) m (key_of_row ws pkc r)
           = Some (row_dict_of ws cols r)"
  using assms by (simp add: fold_store_row_other) (simp add: store_row_def)

subsection \<open>The header loop\<close>

lemma header_loop_pk_col:
  "fst (snd (header_loop ws cs (cols, pkc, pk))) = Some c \<Longrightarrow> pkc = Some c \<or> c \<in> set cs"
proof (induction cs arbitrary: cols pkc pk)
  case Nil then show ?case by simp
next
  case (Cons a cs)
  obtain cols1 pkc1 pk1 where hs: "header_step ws a (cols, pkc, pk) = (cols1, pkc1, pk1)"
    by (cases "header_step ws a (cols, pkc, pk)")
  have "pkc1 = pkc \<or> pkc1 = Some a"
    using hs by (auto simp: header_step_def Let_def split: if_splits)
  moreover have "pkc1 = Some c \<or> c \<in> set cs"
    using Cons.IH [of cols1 pkc1 pk1] Cons.prems by (simp add: hs)
  ultimately show ?case by auto
qed

text \<open>
  C10: when a test-article sheet is parsed, the keys of the record map are exactly the
  non-empty (stripped) primary-key cell values of the data rows that hold data, each key
  once; a row whose key cell is empty contributes no record, whatever its other cells
  hold; \<open>total_units\<close> is the number of those keys; and the record kept under a key is
  the one of the last row carrying it.
\<close>

theorem parse_test_article_sheet_records:
  assumes "parse_test_article_sheet ws name pk = Some res"
  shows "\<exists>pkc. primary_key_column ws pk = Some pkc \<and> 1 \<le> pkc \<and> pkc \<le> max_column ws
      \<and> set (dict_keys (records res)) =
            {key_of_row ws pkc r | r. 2 \<le> r \<and> r \<le> max_row ws \<and> row_has_data ws r
                                      \<and> key_of_row ws pkc r \<noteq> []}
      \<and> distinct (dict_keys (records res))
      \<and> total_units res = card {key_of_row ws pkc r | r. 2 \<le> r \<and> r \<le> max_row ws
                                      \<and> key_of_row ws pkc r \<noteq> []}
      \<and> (\<forall>r. 2 \<le> r \<and> r \<le> max_row ws \<and> key_of_row ws pkc r \<noteq> []
             \<and> (\<forall>r'. r < r' \<and> r' \<le> max_row ws \<longrightarrow> key_of_row ws pkc r' \<noteq> key_of_row ws pkc r)
             \<longrightarrow> map_of (records res) (key_of_row ws pkc r) = Some (row_dict_of ws (columns res) r))"
proof -
  define cs where "cs = [1 ..< max_column ws + 1]"
  define rows where "rows = [2 ..< max_row ws + 1]"
  obtain cols pkco pk1 where hl: "header_loop ws cs ([], None, pk) = (cols, pkco, pk1)"
    by (cases "header_loop ws cs ([], None, pk)")
  from assms have mr: "\<not> max_row ws < 2"
    by (auto simp: parse_test_article_sheet_def split: if_splits)
  from assms mr obtain pkc where pkc: "pkco = Some pkc"
    unfolding parse_test_article_sheet_def cs_def [symmetric]
    by (cases pkco) (auto simp: hl)
  obtain recs trc where rl: "row_loop ws cols pkc rows ([], []) = (recs, trc)"
    by (cases "row_loop ws cols pkc rows ([], [])")
  have res: "records res = recs" "total_units res = length recs" "columns res = cols"
    using assms mr unfolding parse_test_article_sheet_def cs_def [symmetric] rows_def [symmetric]
    by (auto simp: hl pkc rl)
  have pkcol: "primary_key_column ws pk = Some pkc"
    unfolding primary_key_column_def cs_def [symmetric] by (simp add: hl pkc)
  have inc: "pkc \<in> set cs"
    using header_loop_pk_col [of ws cs "[]" None pk pkc] by (simp add: hl pkc)
  then have range: "1 \<le> pkc \<and> pkc \<le> max_column ws"
    by (auto simp: cs_def)
  have inc': "pkc \<in> set [1 ..< max_column ws + 1]" using inc by (simp add: cs_def)
  have hd: "key_of_row ws pkc r \<noteq> [] \<Longrightarrow> row_has_data ws r" for r
    unfolding row_has_data_def key_of_row_def using inc' by blast
  have hd': "(row_has_data ws r \<and> key_of_row ws pkc r \<noteq> []) = (key_of_row ws pkc r \<noteq> [])" for r
    using hd [of r] by blast
  have rows_set: "r \<in> set rows \<longleftrightarrow> 2 \<le> r \<and> r \<le> max_row ws" for r
    by (auto simp: rows_def)
  have keys0: "set (dict_keys recs) =
      {key_of_row ws pkc r | r. r \<in> set rows \<and> key_of_row ws pkc r \<noteq> []}"
    using row_loop_keys [OF inc', of cols rows "[]" "[]"] by (simp add: rl dict_keys_def)
  have keys: "set (dict_keys recs) =
      {key_of_row ws pkc r | r. 2 \<le> r \<and> r \<le> max_row ws \<and> row_has_data ws r
                                      \<and> key_of_row ws pkc r \<noteq> []}"
    unfolding keys0 by (simp only: rows_set hd' conj_assoc)
  have keys': "set (dict_keys recs) =
      {key_of_row ws pkc r | r. 2 \<le> r \<and> r \<le> max_row ws \<and> key_of_row ws pkc r \<noteq> []}"
    unfolding keys0 by (simp only: rows_set conj_assoc)
  have dist: "distinct (dict_keys recs)"
    using row_loop_distinct [OF inc', of "[]" cols rows "[]"] by (simp add: rl dict_keys_def)
  have len: "length recs = card (set (dict_keys recs))"
    using distinct_card [OF dist] by (simp add: dict_keys_def)
  have mo: "map_of recs = fold (store_row ws cols pkc) rows (map_of [])"
    using row_loop_map_of [OF inc', of cols rows "[]" "[]"] by (simp add: rl)
  have last: "map_of recs (key_of_row ws pkc r) = Some (row_dict_of ws cols r)"
    if r: "2 \<le> r" "r \<le> max_row ws" "key_of_row ws pkc r \<noteq> []"
      and later: "\<forall>r'. r < r' \<and> r' \<le> max_row ws \<longrightarrow> key_of_row ws pkc r' \<noteq> key_of_row ws pkc r"
    for r
  proof -
    have lt: "r < max_row ws + 1" using r(2) by simp
    define k where "k = max_row ws + 1 - r"
    have k: "max_row ws + 1 = r + k" using lt by (simp add: k_def)
    have s1: "[2 ..< r + k] = [2 ..< r] @ [r ..< r + k]"
      using upt_add_eq_append [OF r(1)] .
    have "r < r + k" using lt k by linarith
    then have s2: "[r ..< r + k] = r # [Suc r ..< r + k]"
      by (rule upt_conv_Cons)
    have split: "rows = [2 ..< r] @ r # [Suc r ..< max_row ws + 1]"
      unfolding rows_def k s1 s2 ..
    have "\<forall>r' \<in> set [Suc r ..< max_row ws + 1]. key_of_row ws pkc r' \<noteq> key_of_row ws pkc r"
      using later by auto
    from fold_store_row_last [OF r(3) this, of cols "[2 ..< r]" "map_of []"]
    show ?thesis unfolding mo split .
  qed
  show ?thesis
    apply (rule exI [where x = pkc])
    using pkcol range keys dist last
    by (simp add: res len keys')
qed

theorem parse_test_article_sheet_records_witness:
  "parse_test_article_sheet example_sheet ''TEST ARTICLE LOG'' ''DUT Serial Number'' =
     Some \<lparr> sheet_name = ''TEST ARTICLE LOG'', primary_key = ''DUT Serial Number'',
            columns = [''DUT Serial Number'', ''Test Result''],
            total_units = 1, test_result_columns = [''Test Result''],
            test_results_analysis = Stats \<lparr> test_method_losses = 1, total_tests_performed = 1,
               pass_count = 0, fail_count = 0, tml_count = 1, actual_sample_size = 0 \<rparr>,
            records = [(''1001'', [(''DUT Serial Number'', ''1001''), (''Test Result'', ''TML'')])] \<rparr>
   \<and> (\<exists>pkc. primary_key_column example_sheet ''DUT Serial Number'' = Some pkc
      \<and> 1 \<le> pkc \<and> pkc \<le> max_column example_sheet
      \<and> {''1001''} =
            {key_of_row example_sheet pkc r | r. 2 \<le> r \<and> r \<le> max_row example_sheet
                \<and> row_has_data example_sheet r \<and> key_of_row example_sheet pkc r \<noteq> []}
      \<and> 1 = card {key_of_row example_sheet pkc r | r. 2 \<le> r \<and> r \<le> max_row example_sheet
                \<and> key_of_row example_sheet pkc r \<noteq> []})"
proof -
  have h: "parse_test_article_sheet example_sheet ''TEST ARTICLE LOG'' ''DUT Serial Number'' =
     Some \<lparr> sheet_name = ''TEST ARTICLE LOG'', primary_key = ''DUT Serial Number'',
            columns = [''DUT Serial Number'', ''Test Result''],
            total_units = 1, test_result_columns = [''Test Result''],
            test_results_analysis = Stats \<lparr> test_method_losses = 1, total_tests_performed = 1,
               pass_count = 0, fail_count = 0, tml_count = 1, actual_sample_size = 0 \<rparr>,
            records = [(''1001'', [(''DUT Serial Number'', ''1001''), (''Test Result'', ''TML'')])] \<rparr>"
    by code_simp
  from parse_test_article_sheet_records [OF h] obtain pkc where
    "primary_key_column example_sheet ''DUT Serial Number'' = Some pkc
      \<and> 1 \<le> pkc \<and> pkc \<le> max_column example_sheet
      \<and> {''1001''} =
            {key_of_row example_sheet pkc r | r. 2 \<le> r \<and> r \<le> max_row example_sheet
                \<and> row_has_data example_sheet r \<and> key_of_row example_sheet pkc r \<noteq> []}
      \<and> 1 = card {key_of_row example_sheet pkc r | r. 2 \<le> r \<and> r \<le> max_row example_sheet
                \<and> key_of_row example_sheet pkc r \<noteq> []}"
    by (auto simp: dict_keys_def)
  with h show ?thesis by blast
qed

subsection \<open>Splitting and stripping\<close>

lemma split_on_nonempty: "split_on c s \<noteq> []"
  by (induction s) (auto split: list.splits)

lemma split_on_length: "c \<in> set s \<Longrightarrow> length (split_on c s) \<ge> 2"
proof (induction s)
  case Nil then show ?case by simp
next
  case (Cons x xs)
  show ?case
  proof (cases "x = c")
    case True
    then show ?thesis using split_on_nonempty [of c xs]
      by (cases "split_on c xs") auto
  next
    case False
    with Cons show ?thesis by (auto split: list.splits)
  qed
qed

lemma strip_eq_Nil_iff: "strip s = [] \<longleftrightarrow> (\<forall>c \<in> set s. is_space c)"
proof
  assume "strip s = []"
  then have all: "\<forall>x \<in> set (dropWhile is_space s). is_space x"
    by (simp add: strip_def dropWhile_eq_Nil_conv)
  have "dropWhile is_space s = []"
  proof (rule ccontr)
    assume ne: "dropWhile is_space s \<noteq> []"
    then have "\<not> is_space (hd (dropWhile is_space s))" by (rule hd_dropWhile)
    moreover have "hd (dropWhile is_space s) \<in> set (dropWhile is_space s)"
      using ne by simp
    ultimately show False using all by blast
  qed
  then show "\<forall>c \<in> set s. is_space c" by (simp add: dropWhile_eq_Nil_conv)
next
  assume "\<forall>c \<in> set s. is_space c"
  then show "strip s = []" by (auto simp: strip_def dest: set_dropWhileD)
qed

lemma strip_nonempty_if_bar:
  assumes "CHR ''|'' \<in> set s"
  shows "strip s \<noteq> []"
proof -
  have "\<not> is_space CHR ''|''" by (simp add: is_space_def)
  with assms show ?thesis unfolding strip_eq_Nil_iff by blast
qed

lemma strip_strip: "strip (strip s) = strip s"
proof -
  define t where "t = dropWhile is_space s"
  define u where "u = dropWhile is_space (rev t)"
  have su: "strip s = rev u" by (simp add: strip_def t_def u_def)
  have "dropWhile is_space (rev u) = rev u"
  proof (cases t)
    case Nil then show ?thesis by (simp add: u_def)
  next
    case (Cons a t')
    then have "dropWhile is_space s \<noteq> []" by (simp add: t_def)
    then have "\<not> is_space (hd (dropWhile is_space s))" by (rule hd_dropWhile)
    then have na: "\<not> is_space a" using Cons by (simp add: t_def [symmetric])
    have "u = dropWhile is_space (rev t' @ a # [])" by (simp add: u_def Cons)
    also have "\<dots> = dropWhile is_space (rev t') @ a # []"
      using na by (rule dropWhile_append3)
    finally have "rev u = a # rev (dropWhile is_space (rev t'))" by simp
    then show ?thesis using na by simp
  qed
  moreover have "dropWhile is_space u = u" by (simp add: u_def)
  ultimately have "strip (rev u) = rev u" by (simp add: strip_def)
  then show ?thesis by (simp add: su)
qed

subsection \<open>The unique-DUT counter\<close>

lemma count_line_eq:
  "count_line line S =
     (if is_data_line line \<and> isdigit (second_column line) \<and> length (second_column line) \<ge> 8
      then insert (second_column line) S else S)"
proof (cases "CHR ''|'' \<in> set line")
  case False
  then show ?thesis by (simp add: count_line_def is_data_line_def)
next
  case True
  have len: "length (split_on CHR ''|'' line) \<ge> 2" using split_on_length [OF True] .
  have sc: "strip (strip (split_on CHR ''|'' line ! Suc 0)) = second_column line"
    by (simp add: second_column_def strip_strip)
  have ne: "isdigit s \<Longrightarrow> s \<noteq> []" for s by (simp add: isdigit_def)
  show ?thesis
    using True len strip_nonempty_if_bar [OF True] ne [of "second_column line"]
    by (auto simp: count_line_def is_data_line_def Let_def sc list_ex_iff)
qed

lemma fold_count_line:
  "fold count_line ls S =
     S \<union> {second_column line | line. line \<in> set ls \<and> is_data_line line
              \<and> isdigit (second_column line) \<and> length (second_column line) \<ge> 8}"
proof (induction ls arbitrary: S)
  case Nil show ?case by simp
next
  case (Cons l ls)
  have "fold count_line (l # ls) S = fold count_line ls (count_line l S)" by simp
  also have "\<dots> = count_line l S \<union> {second_column line | line. line \<in> set ls \<and> is_data_line line
              \<and> isdigit (second_column line) \<and> length (second_column line) \<ge> 8}"
    by (rule Cons.IH)
  finally have f: "fold count_line (l # ls) S = count_line l S \<union> {second_column line | line. line \<in> set ls \<and> is_data_line line
              \<and> isdigit (second_column line) \<and> length (second_column line) \<ge> 8}" .
  have st: "count_line l S =
     (if is_data_line l \<and> isdigit (second_column l) \<and> length (second_column l) \<ge> 8
      then insert (second_column l) S else S)"
    by (rule count_line_eq)
  show ?case unfolding f st by auto
qed

text \<open>
  C3 as stated fails: on empty input no serial number is accepted, yet the count is 1.
\<close>

theorem count_test_articles_counterexample:
  "accepted_serials '''' = {} \<and> count_test_articles_in_content '''' = 1
   \<and> count_test_articles_in_content '''' \<noteq> card (accepted_serials '''')"
proof -
  have a: "accepted_serials '''' = {}"
    unfolding accepted_serials_def is_data_line_def by simp
  have c: "count_test_articles_in_content '''' = 1"
    unfolding count_test_articles_in_content_def Let_def by (simp add: count_line_def)
  show ?thesis unfolding a c by simp
qed

text \<open>
  C3 amended: the count is always at least 1 and equals the number of distinct accepted
  serial numbers floored at 1; it equals that number whenever some serial is accepted.
\<close>

theorem count_test_articles_floor:
  "count_test_articles_in_content excel_data \<ge> 1
   \<and> count_test_articles_in_content excel_data = max 1 (card (accepted_serials excel_data))
   \<and> (accepted_serials excel_data \<noteq> {} \<longrightarrow>
        count_test_articles_in_content excel_data = card (accepted_serials excel_data))"
proof -
  define A where "A = accepted_serials excel_data"
  have "A \<subseteq> second_column ` set (split_on CHR 0x0A excel_data)"
    unfolding A_def accepted_serials_def by blast
  then have fin: "finite A" by (rule finite_subset) simp
  have "fold count_line (split_on CHR 0x0A excel_data) {} = A"
    unfolding fold_count_line A_def accepted_serials_def by simp
  then have eq: "count_test_articles_in_content excel_data = max 1 (card A)"
    unfolding count_test_articles_in_content_def Let_def by simp
  have pos: "A \<noteq> {} \<Longrightarrow> 1 \<le> card A"
    using fin by (simp add: Suc_leI card_gt_0_iff)
  have "1 \<le> max 1 (card A)" by simp
  moreover have "A \<noteq> {} \<longrightarrow> max 1 (card A) = card A"
    using pos by (simp add: max_def)
  ultimately show ?thesis unfolding eq A_def [symmetric] by blast
qed

theorem count_test_articles_floor_witness:
  "accepted_serials (join ''\<newline>'' [''=== WORKSHEET: LOG ==='', ''Part Number | Serial Number'',
       ''P1 | 12345678'', ''P1 | 12345678 '', ''P2 | 87654321'', ''P3 | 1234'']) \<noteq> {}
   \<and> count_test_articles_in_content (join ''\<newline>'' [''=== WORKSHEET: LOG ==='',
       ''Part Number | Serial Number'',
       ''P1 | 12345678'', ''P1 | 12345678 '', ''P2 | 87654321'', ''P3 | 1234'']) = 2
   \<and> card (accepted_serials (join ''\<newline>'' [''=== WORKSHEET: LOG ==='',
       ''Part Number | Serial Number'',
       ''P1 | 12345678'', ''P1 | 12345678 '', ''P2 | 87654321'', ''P3 | 1234''])) = 2"
proof -
  define e where "e = join ''\<newline>'' [''=== WORKSHEET: LOG ==='', ''Part Number | Serial Number'',
       ''P1 | 12345678'', ''P1 | 12345678 '', ''P2 | 87654321'', ''P3 | 1234'']"
  have c: "count_test_articles_in_content e = 2"
    unfolding e_def by code_simp
  have m: "count_test_articles_in_content e = max 1 (card (accepted_serials e))"
    using count_test_articles_floor [of e] by blast
  have k: "card (accepted_serials e) = 2"
    using c m by (simp add: max_def split: if_splits)
  then have "accepted_serials e \<noteq> {}" by auto
  with c k show ?thesis unfolding e_def by blast
qed

subsection \<open>Uploaded files: failures never reach the error list\<close>














subsection \<open>Generation tasks under a failing capability\<close>

lemma generate_content_raises:
  "call_raises cap \<Longrightarrow> \<exists>e. generate_content cap = Inl e"
  by (cases cap) (auto simp: call_raises_def)

lemma create_fallback_section_nonempty: "create_fallback_section cfg \<noteq> []"
  by (simp add: create_fallback_section_def Let_def)

lemma fallback_acronyms_section_nonempty: "fallback_acronyms_section \<noteq> []"
  by (simp add: fallback_acronyms_section_def)

lemma fallback_organize_data_nonempty: "fallback_organize_data cv ls \<noteq> []"
  by (cases ls) (auto simp: fallback_organize_data_def)

text \<open>
  C1 as stated fails: when the capability call raises, the device-configuration task and
  the protocol-deviations task return \<open>success = False\<close>; the latter does so too when the
  call returns empty content.
\<close>

theorem generation_tasks_counterexample:
  "\<not> success (create_device_configuration_section (CallFails ''timeout'')
         \<lparr> units_sterilized = True, units_modified = False, modification_description = None \<rparr>)
   \<and> \<not> success (process_deviations (\<lambda>s. s) (CallFails ''timeout'') ''Found 1 deviations'')
   \<and> \<not> success (process_deviations (\<lambda>s. s) (CallReturns []) ''Found 1 deviations'')"
  by (simp add: create_device_configuration_section_def process_deviations_def strip_def
        is_space_def)

text \<open>
  C1 amended: no task lets the exception escape, each returns a \<open>TaskResult\<close>. When the
  call raises: the acronyms and equipment tasks return \<open>success = True\<close> with non-empty
  fallback content; the device-configuration task returns its non-empty fallback section
  with \<open>success = False\<close>; the scope/purpose, reference, procedure-summary and conclusion
  tasks return \<open>success = False\<close> with empty content. When the call raises or returns
  empty content: the test-method-loss and test-result-summary tasks return
  \<open>success = True\<close> with non-empty fallback content; the protocol-deviations and
  defective-unit tasks return their fixed fallback sentence with \<open>success = False\<close>. When
  the call returns empty content: the reference, procedure-summary, acronyms and
  device-configuration tasks return \<open>success = True\<close> with empty content, and the
  conclusion task \<open>success = False\<close> with empty content.
\<close>

theorem generation_tasks_fallback:
  "(call_raises cap \<longrightarrow>
       success (create_acronyms_and_definitions cap)
     \<and> content (create_acronyms_and_definitions cap) = fallback_acronyms_section
     \<and> fallback_acronyms_section \<noteq> []
     \<and> success (equipment_process cap False cv category_lines attachment)
     \<and> content (equipment_process cap False cv category_lines attachment) \<noteq> []
     \<and> \<not> success (create_device_configuration_section cap cfg)
     \<and> content (create_device_configuration_section cap cfg) = create_fallback_section cfg
     \<and> create_fallback_section cfg \<noteq> []
     \<and> \<not> success (create_scope_and_purpose cap scope_tables)
     \<and> content (create_scope_and_purpose cap scope_tables) = []
     \<and> \<not> success (create_reference_section cap)
     \<and> content (create_reference_section cap) = []
     \<and> \<not> success (create_test_procedure_summary cap)
     \<and> content (create_test_procedure_summary cap) = []
     \<and> \<not> success (generate_conclusion cap test_results_content scope_content)
     \<and> content (generate_conclusion cap test_results_content scope_content) = [])
   \<and> (call_fails_or_empty cap' \<longrightarrow>
       success (create_test_method_loss_investigations cap' loss_data)
     \<and> content (create_test_method_loss_investigations cap' loss_data) = generate_no_losses_content
     \<and> generate_no_losses_content \<noteq> []
     \<and> success (create_test_result_summary parse_json generate_table default_table cap' criteria_data)
     \<and> content (create_test_result_summary parse_json generate_table default_table cap' criteria_data)
           = default_table @ default_table_note
     \<and> default_table @ default_table_note \<noteq> []
     \<and> (deviations_text \<noteq> [] \<and> strip deviations_text \<noteq> ''No deviations data found.'' \<longrightarrow>
           \<not> success (process_deviations vf cap' deviations_text)
         \<and> content (process_deviations vf cap' deviations_text) = ''No deviations.'')
     \<and> (defective_text \<noteq> [] \<and> strip defective_text \<noteq> ''No defective units data found.'' \<longrightarrow>
           \<not> success (process_defective_units vf cap' defective_text)
         \<and> content (process_defective_units vf cap' defective_text)
              = ''No defective unit in the execution of this test.''))
   \<and> success (create_reference_section (CallReturns []))
   \<and> content (create_reference_section (CallReturns [])) = []
   \<and> success (create_test_procedure_summary (CallReturns []))
   \<and> content (create_test_procedure_summary (CallReturns [])) = []
   \<and> success (create_acronyms_and_definitions (CallReturns []))
   \<and> content (create_acronyms_and_definitions (CallReturns [])) = []
   \<and> success (create_device_configuration_section (CallReturns []) cfg)
   \<and> content (create_device_configuration_section (CallReturns []) cfg) = []
   \<and> \<not> success (generate_conclusion (CallReturns []) test_results_content scope_content)
   \<and> content (generate_conclusion (CallReturns []) test_results_content scope_content) = []"
proof (intro conjI impI)
  assume r: "call_raises cap"
  then obtain e where e: "generate_content cap = Inl e"
    using generate_content_raises by blast
  show "success (create_acronyms_and_definitions cap)"
    "content (create_acronyms_and_definitions cap) = fallback_acronyms_section"
    by (simp_all add: create_acronyms_and_definitions_def e)
  show "fallback_acronyms_section \<noteq> []" by (rule fallback_acronyms_section_nonempty)
  have eq: "(case cap of CallReturns t \<Rightarrow> strip t | _ \<Rightarrow> fallback_organize_data cv category_lines)
             = fallback_organize_data cv category_lines"
    using r by (cases cap) (auto simp: call_raises_def)
  show "success (equipment_process cap False cv category_lines attachment)"
    by (simp add: equipment_process_def Let_def)
  show "content (equipment_process cap False cv category_lines attachment) \<noteq> []"
    using fallback_organize_data_nonempty [of cv category_lines]
    by (cases attachment) (simp_all add: equipment_process_def Let_def eq)
  show "\<not> success (create_device_configuration_section cap cfg)"
    "content (create_device_configuration_section cap cfg) = create_fallback_section cfg"
    by (simp_all add: create_device_configuration_section_def e)
  show "create_fallback_section cfg \<noteq> []" by (rule create_fallback_section_nonempty)
  show "\<not> success (create_scope_and_purpose cap scope_tables)"
    "content (create_scope_and_purpose cap scope_tables) = []"
    by (simp_all add: create_scope_and_purpose_def e)
  show "\<not> success (create_reference_section cap)" "content (create_reference_section cap) = []"
    by (simp_all add: create_reference_section_def e)
  show "\<not> success (create_test_procedure_summary cap)"
    "content (create_test_procedure_summary cap) = []"
    by (simp_all add: create_test_procedure_summary_def e)
  show "\<not> success (generate_conclusion cap test_results_content scope_content)"
    "content (generate_conclusion cap test_results_content scope_content) = []"
    by (simp_all add: generate_conclusion_def e)
next
  assume f: "call_fails_or_empty cap'"
  then have g: "(\<exists>e. generate_content cap' = Inl e) \<or> generate_content cap' = Inr []"
    using generate_content_raises [of cap'] by (auto simp: call_fails_or_empty_def)
  have ai: "generate_ai_content cap' h = generate_no_losses_content" for h
    using g by (auto simp: generate_ai_content_def)
  have nl: "generate_no_losses_content \<noteq> []" by (simp add: generate_no_losses_content_def)
  show "success (create_test_method_loss_investigations cap' loss_data)"
    "content (create_test_method_loss_investigations cap' loss_data) = generate_no_losses_content"
    using nl by (cases loss_data; simp add: create_test_method_loss_investigations_def ai Let_def)+
  show "generate_no_losses_content \<noteq> []" by (rule nl)
  have ci: "extract_criteria_info parse_json cap' = []"
    using g by (auto simp: extract_criteria_info_def parse_criteria_response_def has_bracket_pair_def)
  show "success (create_test_result_summary parse_json generate_table default_table cap' criteria_data)"
    "content (create_test_result_summary parse_json generate_table default_table cap' criteria_data)
           = default_table @ default_table_note"
    by (simp_all add: create_test_result_summary_def ci)
  show "default_table @ default_table_note \<noteq> []" by (simp add: default_table_note_def)
  {
    assume d: "deviations_text \<noteq> [] \<and> strip deviations_text \<noteq> ''No deviations data found.''"
    show "\<not> success (process_deviations vf cap' deviations_text)"
      "content (process_deviations vf cap' deviations_text) = ''No deviations.''"
      using g d by (auto simp: process_deviations_def)
  }
  {
    assume d: "defective_text \<noteq> [] \<and> strip defective_text \<noteq> ''No defective units data found.''"
    show "\<not> success (process_defective_units vf cap' defective_text)"
      "content (process_defective_units vf cap' defective_text)
              = ''No defective unit in the execution of this test.''"
      using g d by (auto simp: process_defective_units_def)
  }
next
  show "success (create_reference_section (CallReturns []))"
    "content (create_reference_section (CallReturns [])) = []"
    "success (create_test_procedure_summary (CallReturns []))"
    "content (create_test_procedure_summary (CallReturns [])) = []"
    "success (create_acronyms_and_definitions (CallReturns []))"
    "content (create_acronyms_and_definitions (CallReturns [])) = []"
    "success (create_device_configuration_section (CallReturns []) cfg)"
    "content (create_device_configuration_section (CallReturns []) cfg) = []"
    "\<not> success (generate_conclusion (CallReturns []) test_results_content scope_content)"
    "content (generate_conclusion (CallReturns []) test_results_content scope_content) = []"
    by (simp_all add: create_reference_section_def create_test_procedure_summary_def
          create_acronyms_and_definitions_def create_device_configuration_section_def
          generate_conclusion_def strip_def)
qed

theorem generation_tasks_fallback_witness:
  "call_raises (CallFails ''timeout'') \<and> call_fails_or_empty (CallReturns [])
   \<and> ''Found 1 deviations'' \<noteq> [] \<and> strip ''Found 1 deviations'' \<noteq> ''No deviations data found.''
   \<and> ''Found 2 defective units'' \<noteq> []
   \<and> strip ''Found 2 defective units'' \<noteq> ''No defective units data found.''
   \<and> \<not> success (create_device_configuration_section (CallFails ''timeout'')
           \<lparr> units_sterilized = True, units_modified = False, modification_description = None \<rparr>)
   \<and> content (create_device_configuration_section (CallFails ''timeout'')
           \<lparr> units_sterilized = True, units_modified = False, modification_description = None \<rparr>)
        = create_fallback_section
           \<lparr> units_sterilized = True, units_modified = False, modification_description = None \<rparr>
   \<and> success (create_acronyms_and_definitions (CallFails ''timeout''))
   \<and> success (create_test_method_loss_investigations (CallReturns []) (Some True))
   \<and> \<not> success (process_deviations (\<lambda>s. s) (CallReturns []) ''Found 1 deviations'')
   \<and> content (process_deviations (\<lambda>s. s) (CallReturns []) ''Found 1 deviations'') = ''No deviations.''
   \<and> \<not> success (process_defective_units (\<lambda>s. s) (CallReturns []) ''Found 2 defective units'')"
proof -
  have h1: "call_raises (CallFails ''timeout'')" by (simp add: call_raises_def)
  have h2: "call_fails_or_empty (CallReturns [])" by (simp add: call_fails_or_empty_def)
  have h3: "''Found 1 deviations'' \<noteq> [] \<and> strip ''Found 1 deviations'' \<noteq> ''No deviations data found.''"
    by code_simp
  have h4: "''Found 2 defective units'' \<noteq> []
      \<and> strip ''Found 2 defective units'' \<noteq> ''No defective units data found.''"
    by code_simp
  show ?thesis
    using h1 h2 h3 h4 generation_tasks_fallback
      [where cap = "CallFails ''timeout''" and cap' = "CallReturns []"
         and deviations_text = "''Found 1 deviations''"
         and defective_text = "''Found 2 defective units''" and vf = "\<lambda>s. s"
         and loss_data = "Some True"
         and cfg = "\<lparr> units_sterilized = True, units_modified = False,
                      modification_description = None \<rparr>"]
    by blast
qed

subsection \<open>Parsing stops at the appendices heading\<close>

lemma parse_elements_stopped:
  "stop_parsing st \<Longrightarrow> parse_elements py_hash es st = st"
  by (cases es) simp_all

lemma parse_elements_append:
  "parse_elements py_hash (xs @ ys) st =
     parse_elements py_hash ys (parse_elements py_hash xs st)"
proof (induction xs arbitrary: st)
  case Nil
  show ?case by simp
next
  case (Cons x xs)
  show ?case
  proof (cases "stop_parsing st")
    case True
    then show ?thesis by (simp add: parse_elements_stopped)
  next
    case False
    then show ?thesis using Cons.IH by simp
  qed
qed

lemma process_paragraph_heading:
  "is_appendices_heading t \<Longrightarrow>
     process_paragraph py_hash t st = st\<lparr>stop_parsing := True\<rparr>"
  by (simp add: process_paragraph_def is_appendices_heading_def Let_def)

text \<open>
  C4: when a paragraph recognised as an appendices/attachments heading occurs in the
  document, the parsed tree is that of the elements before it: neither the heading nor
  any paragraph or table after it contributes a section or a content item.
\<close>

theorem parse_document_stops_at_appendices:
  assumes "is_appendices_heading t"
  shows "parse_document py_hash (before @ Paragraph t # after) = parse_document py_hash before"
proof -
  define st where "st = parse_elements py_hash before initial_state"
  have "parse_elements py_hash (Paragraph t # after) st = st \<or>
        parse_elements py_hash (Paragraph t # after) st = st\<lparr>stop_parsing := True\<rparr>"
  proof (cases "stop_parsing st")
    case True
    then show ?thesis by simp
  next
    case False
    have "parse_elements py_hash after (st\<lparr>stop_parsing := True\<rparr>) = st\<lparr>stop_parsing := True\<rparr>"
      by (rule parse_elements_stopped) simp
    then show ?thesis using False by (simp add: process_paragraph_heading [OF assms])
  qed
  then have "parsed_data (parse_elements py_hash (Paragraph t # after) st) = parsed_data st"
    by auto
  then show ?thesis
    by (simp add: parse_document_def parse_elements_append st_def)
qed

subsection \<open>Digits and integer conversion\<close>

lemma is_digit_not_special:
  assumes "is_digit c"
  shows "c \<noteq> CHR ''.''" "c \<noteq> CHR ''-''" "c \<noteq> CHR ''+''" "c \<noteq> CHR ''_''" "\<not> is_space c"
  using assms by (auto simp: is_digit_def is_space_def Let_def)

lemma is_digit_digit_char:
  assumes "0 \<le> m" "m < 10"
  shows "is_digit (digit_char m)"
proof -
  have e: "list_all (\<lambda>m. is_digit (digit_char m)) [0, 1, 2, 3, 4, 5, 6, 7, 8, 9]"
    by code_simp
  from assms have "m \<in> set [0, 1, 2, 3, 4, 5, 6, 7, 8, 9]" by (simp; presburger)
  with e show ?thesis unfolding list_all_iff by blast
qed

lemma str_digits_isdigit: "0 \<le> n \<Longrightarrow> isdigit (str_digits n)"
proof (induction n rule: str_digits.induct)
  case (1 n)
  show ?case
  proof (cases "n < 10")
    case True
    then show ?thesis
      using "1.prems" is_digit_digit_char [of n]
      by (subst str_digits.simps) (simp add: isdigit_def)
  next
    case False
    have a: "isdigit (str_digits (n div 10))"
      using "1.IH" False "1.prems" by simp
    have b: "is_digit (digit_char (n mod 10))"
      by (rule is_digit_digit_char) simp_all
    show ?thesis
      using a b False by (subst str_digits.simps) (simp add: isdigit_def)
  qed
qed

lemma str_int_isdigit: "0 \<le> n \<Longrightarrow> isdigit (str_int n)"
  by (simp add: str_int_def str_digits_isdigit)

lemma py_in_subset: "py_in sub s \<Longrightarrow> set sub \<subseteq> set s"
proof (induction s)
  case Nil
  then show ?case by simp
next
  case (Cons x xs)
  show ?case
  proof (cases "startswith (x # xs) sub")
    case True
    then have "sub = take (length sub) (x # xs)" by (simp add: startswith_def)
    then have "set sub \<subseteq> set (x # xs)" by (metis set_take_subset)
    then show ?thesis .
  next
    case False
    with Cons show ?thesis by auto
  qed
qed

lemma strip_id:
  assumes "s \<noteq> []" "\<not> is_space (hd s)" "\<not> is_space (last s)"
  shows "strip s = s"
proof -
  have a: "dropWhile is_space s = s" using assms(1,2) by (cases s) auto
  obtain x l where xl: "rev s = x # l" using assms(1) by (cases "rev s") auto
  have "hd (rev s) = last s" using assms(1) by (simp add: hd_rev)
  then have "x = last s" by (simp add: xl)
  then have b: "dropWhile is_space (rev s) = rev s" using assms(3) by (simp add: xl)
  show ?thesis by (simp add: strip_def a b)
qed

lemma isdigit_hd_last:
  assumes "isdigit d"
  shows "d \<noteq> []" "is_digit (hd d)" "is_digit (last d)" "\<forall>c \<in> set d. is_digit c"
  using assms by (auto simp: isdigit_def list_all_iff)

lemma py_int_isdigit:
  assumes "isdigit d"
  shows "py_int d = Some (int_of_digits d)"
proof -
  note d = isdigit_hd_last [OF assms]
  have st: "strip d = d"
    using d(1) is_digit_not_special(5) [OF d(2)] is_digit_not_special(5) [OF d(3)]
    by (rule strip_id)
  obtain c r where cr: "d = c # r" using d(1) by (cases d) auto
  have c: "c \<noteq> CHR ''-''" "c \<noteq> CHR ''+''"
    using d(2) is_digit_not_special(2,3) [of c] by (simp_all add: cr)
  have "CHR ''_'' \<notin> set d" using d(4) is_digit_not_special(4) by blast
  then have nu: "\<not> py_in ''__'' d" using py_in_subset [of "''__''" d] by auto
  have v: "valid_int_body d"
    using d nu by (simp add: valid_int_body_def list_all_iff)
  have f: "filter is_digit d = d" using d(4) by simp
  have "py_int (c # r) = Some (int_of_digits (c # r))"
    using v f c st unfolding py_int_def cr by (simp add: Let_def)
  then show ?thesis by (simp add: cr)
qed

subsection \<open>Splitting at a separator\<close>

lemma split_on_no_sep: "c \<notin> set s \<Longrightarrow> split_on c s = [s]"
  by (induction s) auto

lemma split_on_append: "c \<notin> set a \<Longrightarrow> split_on c (a @ c # b) = a # split_on c b"
  by (induction a) auto

subsection \<open>Well-formed section identifiers\<close>

lemma wf_section_num_intro:
  assumes "isdigit d1" "isdigit d2"
  shows "wf_section_num (d1 @ ''.'' @ d2)"
proof -
  have n1: "\<forall>c \<in> set d1. c \<noteq> CHR ''.''"
    using isdigit_hd_last(4) [OF assms(1)] is_digit_not_special(1) by blast
  have t: "takeWhile (\<lambda>c. c \<noteq> CHR ''.'') (d1 @ CHR ''.'' # d2) = d1"
    using n1 by (simp add: takeWhile_tail)
  have dr: "dropWhile (\<lambda>c. c \<noteq> CHR ''.'') (d1 @ CHR ''.'' # d2) = CHR ''.'' # d2"
    using n1 by (simp add: dropWhile_append3)
  show ?thesis using assms by (simp add: wf_section_num_def t dr)
qed

lemma sort_section_key_wf:
  assumes "wf_section_num k"
  shows "sort_section_key k = Some (major_minor k)"
proof -
  define d1 where "d1 = takeWhile (\<lambda>c. c \<noteq> CHR ''.'') k"
  define r where "r = dropWhile (\<lambda>c. c \<noteq> CHR ''.'') k"
  define d2 where "d2 = drop 1 r"
  have k: "k = d1 @ r" by (simp add: d1_def r_def)
  have rne: "r \<noteq> []" using assms by (simp add: wf_section_num_def r_def)
  then have "hd r = CHR ''.''" using hd_dropWhile [of "\<lambda>c. c \<noteq> CHR ''.''" k] by (simp add: r_def)
  then have r: "r = CHR ''.'' # d2" using rne by (cases r) (auto simp: d2_def)
  have dg: "isdigit d1" "isdigit d2"
    using assms by (simp_all add: wf_section_num_def d1_def d2_def r_def)
  have n1: "CHR ''.'' \<notin> set d1"
    using isdigit_hd_last(4) [OF dg(1)] is_digit_not_special(1) by blast
  have n2: "CHR ''.'' \<notin> set d2"
    using isdigit_hd_last(4) [OF dg(2)] is_digit_not_special(1) by blast
  have sp: "split_on CHR ''.'' k = [d1, d2]"
    unfolding k r using n1 n2 by (simp add: split_on_append split_on_no_sep)
  have mm: "major_minor k = (int_of_digits d1, int_of_digits d2)"
    by (simp add: major_minor_def d1_def d2_def r_def)
  show ?thesis
    by (simp add: sort_section_key_def sp py_int_isdigit [OF dg(1)] py_int_isdigit [OF dg(2)] mm)
qed

subsection \<open>Every section identifier of a parsed tree is well-formed\<close>

lemma split_number_wf: "split_number text = Some (num, r) \<Longrightarrow> wf_section_num num"
proof -
  assume a: "split_number text = Some (num, r)"
  define d1 where "d1 = takeWhile is_digit text"
  obtain c r2 where r1: "dropWhile is_digit text = c # r2"
    using a by (cases "dropWhile is_digit text") (auto simp: split_number_def)
  define d2 where "d2 = takeWhile is_digit r2"
  have num: "num = d1 @ ''.'' @ d2" and ne: "d1 \<noteq> []" "d2 \<noteq> []"
    using a by (auto simp: split_number_def r1 Let_def d1_def d2_def split: if_splits)
  have "list_all is_digit d1" "list_all is_digit d2"
    by (auto simp: d1_def d2_def list_all_iff dest: set_takeWhileD)
  then have "isdigit d1" "isdigit d2" using ne by (simp_all add: isdigit_def)
  then show ?thesis unfolding num by (rule wf_section_num_intro)
qed

lemma get_section_index_nonneg: "0 \<le> get_section_index py_hash t"
proof (cases "find (\<lambda>(key, v). py_in (lower key) (lower t)) section_mapping")
  case None
  then show ?thesis by (simp add: get_section_index_def)
next
  case (Some kv)
  obtain key v where kv: "kv = (key, v)" by (cases kv)
  have "(key, v) \<in> set section_mapping"
    using Some unfolding kv find_Some_iff by (metis nth_mem)
  then have "0 \<le> v" by (auto simp: section_mapping_def)
  then show ?thesis by (simp add: get_section_index_def Some kv)
qed

lemma extract_section_number_wf:
  assumes "extract_section_number py_hash text = Some (num, title)"
  shows "wf_section_num num"
proof -
  have p: "wf_section_num n" if "split_number text = Some (n, r)" for n r
    using that by (rule split_number_wf)
  have p1: "wf_section_num n" if "pattern1 text = Some (n, g)" for n g
    using that p by (auto simp: pattern1_def split: option.splits if_splits)
  have p2: "wf_section_num n" if "pattern2 text = Some (n, g)" for n g
    using that p by (auto simp: pattern2_def Let_def split: option.splits if_splits)
  have p3: "wf_section_num n" if "pattern3 text = Some (n, g)" for n g
    using that p by (auto simp: pattern3_def Let_def split: option.splits if_splits)
  have "isdigit ''0''" by code_simp
  then have t: "wf_section_num (str_int (get_section_index py_hash s) @ ''.0'')" for s
    using wf_section_num_intro [OF str_int_isdigit [OF get_section_index_nonneg [of py_hash s]], of "''0''"]
    by simp
  show ?thesis
    using assms p1 p2 p3 t
    by (auto simp: extract_section_number_def Let_def split: option.splits if_splits)
qed

lemma add_content_to_section_keys:
  "set (dict_keys (parsed_data (add_content_to_section c item st)))
     \<subseteq> insert c (set (dict_keys (parsed_data st)))"
  by (auto simp: add_content_to_section_def Let_def dict_keys_dict_set
           split: section_data.splits prod.splits if_splits)

lemma add_content_to_section_current:
  "current_section (add_content_to_section c item st) = current_section st"
  by (simp add: add_content_to_section_def Let_def split: section_data.splits prod.splits)

lemma add_content_to_section_wf:
  assumes "wf_state st" "current_section st = Some c"
  shows "wf_state (add_content_to_section c item st)"
  using assms add_content_to_section_keys [of c item st]
  unfolding wf_state_def add_content_to_section_current by blast

lemma process_paragraph_wf:
  assumes "wf_state st"
  shows "wf_state (process_paragraph py_hash t st)"
proof -
  have h: "wf_section_num num"
    if "extract_section_number py_hash (strip t) = Some (num, title)" for num title
    using that by (rule extract_section_number_wf)
  show ?thesis
  proof (cases "extract_section_number py_hash (strip t)")
    case None
    then show ?thesis
      using assms add_content_to_section_wf [of st]
      by (auto simp: process_paragraph_def Let_def wf_state_def split: option.splits)
  next
    case (Some nt)
    obtain num title where nt: "nt = (num, title)" by (cases nt)
    have w: "wf_section_num num" using h Some nt by simp
    show ?thesis
      using assms w
      by (auto simp: process_paragraph_def Let_def Some nt wf_state_def dict_keys_dict_set)
  qed
qed

lemma process_element_wf: "wf_state st \<Longrightarrow> wf_state (process_element py_hash e st)"
  by (cases e) (auto simp: process_paragraph_wf process_table_def add_content_to_section_wf
        split: option.splits)

lemma parse_elements_wf: "wf_state st \<Longrightarrow> wf_state (parse_elements py_hash es st)"
  by (induction es arbitrary: st) (auto simp: process_element_wf)

lemma parse_document_wf:
  "k \<in> set (dict_keys (parse_document py_hash body)) \<Longrightarrow> wf_section_num k"
proof -
  have "wf_state initial_state" by (simp add: wf_state_def initial_state_def dict_keys_def)
  then have "wf_state (parse_elements py_hash body initial_state)" by (rule parse_elements_wf)
  then show "k \<in> set (dict_keys (parse_document py_hash body)) \<Longrightarrow> wf_section_num k"
    by (simp add: wf_state_def parse_document_def)
qed

text \<open>
  C9: for the tree parsed from any document, the serialization succeeds and is the
  concatenation of the blocks of the sections taken in an order that is a permutation
  of the tree's section identifiers and ascending in the numeric pair (major, minor).
\<close>

theorem format_for_ai_prompt_numeric_order:
  "\<exists>ks. format_for_ai_prompt repr_row (parse_document py_hash body)
          = Inr (join ''\<newline>''
               (concat (map (format_section repr_row (parse_document py_hash body)) ks)))
      \<and> mset ks = mset (dict_keys (parse_document py_hash body))
      \<and> sorted (map major_minor ks)
      \<and> (\<forall>k \<in> set ks. sort_section_key k = Some (major_minor k))"
proof -
  define pd where "pd = parse_document py_hash body"
  define ks where "ks = sort_key (\<lambda>k. the (sort_section_key k)) (dict_keys pd)"
  have key: "sort_section_key k = Some (major_minor k)" if "k \<in> set (dict_keys pd)" for k
    using that parse_document_wf [of k py_hash body] sort_section_key_wf [of k]
    by (simp add: pd_def)
  have all: "list_all (\<lambda>k. sort_section_key k \<noteq> None) (dict_keys pd)"
    using key by (simp add: list_all_iff)
  have ss: "sorted_sections pd = Some ks"
    using all by (simp add: sorted_sections_def ks_def)
  have f: "format_for_ai_prompt repr_row pd
             = Inr (join ''\<newline>'' (concat (map (format_section repr_row pd) ks)))"
    by (simp add: format_for_ai_prompt_def ss)
  have m: "mset ks = mset (dict_keys pd)" by (simp add: ks_def)
  have set: "set ks = set (dict_keys pd)" by (simp add: ks_def)
  have "sorted (map (\<lambda>k. the (sort_section_key k)) ks)"
    unfolding ks_def by (rule sorted_sort_key)
  moreover have "map (\<lambda>k. the (sort_section_key k)) ks = map major_minor ks"
    using key set by (intro map_cong) auto
  ultimately have s: "sorted (map major_minor ks)" by simp
  show ?thesis
    using f m s key set unfolding pd_def by blast
qed

theorem parse_document_stops_at_appendices_witness:
  "is_appendices_heading ''9.0 APPENDICES''
   \<and> parse_document (\<lambda>s. 0) (example_before @ Paragraph ''9.0 APPENDICES'' # example_after)
       = parse_document (\<lambda>s. 0) example_before
   \<and> dict_keys (parse_document (\<lambda>s. 0) example_before) = [''10.0'', ''2.0'', ''2.10'', ''2.9'']"
proof -
  have h: "is_appendices_heading ''9.0 APPENDICES''" by code_simp
  have k: "dict_keys (parse_document (\<lambda>s. 0) example_before) = [''10.0'', ''2.0'', ''2.10'', ''2.9'']"
    by code_simp
  show ?thesis
    using h k parse_document_stops_at_appendices [OF h, of "\<lambda>s. 0" example_before example_after]
    by blast
qed

theorem format_for_ai_prompt_numeric_order_witness:
  "sorted_sections (parse_document (\<lambda>s. 0) example_before) = Some [''2.0'', ''2.9'', ''2.10'', ''10.0'']
   \<and> map major_minor [''2.0'', ''2.9'', ''2.10'', ''10.0''] = [(2, 0), (2, 9), (2, 10), (10, 0)]
   \<and> (\<exists>ks. format_for_ai_prompt (\<lambda>row. ''{}'') (parse_document (\<lambda>s. 0) example_before)
          = Inr (join ''\<newline>''
               (concat (map (format_section (\<lambda>row. ''{}'') (parse_document (\<lambda>s. 0) example_before)) ks)))
      \<and> mset ks = mset (dict_keys (parse_document (\<lambda>s. 0) example_before))
      \<and> sorted (map major_minor ks)
      \<and> (\<forall>k \<in> set ks. sort_section_key k = Some (major_minor k)))"
proof -
  have a: "sorted_sections (parse_document (\<lambda>s. 0) example_before)
             = Some [''2.0'', ''2.9'', ''2.10'', ''10.0'']"
    by code_simp
  have b: "map major_minor [''2.0'', ''2.9'', ''2.10'', ''10.0''] = [(2, 0), (2, 9), (2, 10), (10, 0)]"
    by code_simp
  show ?thesis
    using a b format_for_ai_prompt_numeric_order [of "\<lambda>row. ''{}''" "\<lambda>s. 0" example_before]
    by blast
qed

end
